theory Spec2Isabelle
  imports Complex_Main "HOL-Library.Multiset" "HOL-Library.Sublist"
    "HOL-Library.Char_ord" "HOL-Library.List_Lexorder"
begin

section \<open>Values shared by the three modules\<close>

text \<open>
  Python exceptions that the modelled code can raise. A function of the source that may raise
  returns \<open>error + 'a\<close>, with \<open>Inl\<close> for the exception.
\<close>

datatype error =
    KeyError string
  | ValueError
  | TypeError
  | AttributeError
  | JSONDecodeError
  | IndexError

text \<open>
  The values \<open>json.loads\<close> produces and \<open>json.dumps\<close> accepts. A Python \<open>dict\<close> keeps
  insertion order and is modelled as an association list read with \<open>map_of\<close>. Python's
  \<open>int\<close> and \<open>float\<close> are both \<open>JNum\<close>: finite floats are exact rationals; NaN and the
  infinities are not modelled.
\<close>

datatype json =
    JNull
  | JBool bool
  | JNum rat
  | JStr string
  | JList "json list"
  | JObj "(string \<times> json) list"

type_synonym pydict = "(string \<times> json) list"

subsection \<open>trace.py: EventType, Event, Span, Trace\<close>

datatype EventType =
    LLM_REQUEST
  | LLM_RESPONSE
  | TOOL_CALL
  | TOOL_RESULT
  | DECISION
  | STATE_CHANGE
  | ERROR
  | LOG

fun EventType_value :: "EventType \<Rightarrow> string" where
  "EventType_value LLM_REQUEST = ''llm_request''"
| "EventType_value LLM_RESPONSE = ''llm_response''"
| "EventType_value TOOL_CALL = ''tool_call''"
| "EventType_value TOOL_RESULT = ''tool_result''"
| "EventType_value DECISION = ''decision''"
| "EventType_value STATE_CHANGE = ''state_change''"
| "EventType_value ERROR = ''error''"
| "EventType_value LOG = ''log''"

record event =
  event_type :: EventType
  timestamp :: rat
  data :: pydict
  event_id :: string

record span =
  span_name :: string
  span_id :: string
  parent_id :: "string option"
  span_start_time :: rat
  span_end_time :: "rat option"
  events :: "event list"
  span_metadata :: pydict

record trace =
  trace_id :: string
  trace_name :: string
  trace_start_time :: rat
  trace_end_time :: "rat option"
  spans :: "span list"
  trace_metadata :: pydict

text \<open>
  \<open>Trace.all_events\<close>: the loop extends one list with every span's events, and
  \<open>sorted(events, key=lambda e: e.timestamp)\<close> is Python's stable sort.
\<close>

definition all_events :: "trace \<Rightarrow> event list" where
  "all_events t = sort_key timestamp (concat (map events (spans t)))"

definition event_count :: "trace \<Rightarrow> nat" where
  "event_count t = sum_list (map (\<lambda>s. length (events s)) (spans t))"

section \<open>replay.py: ReplayEngine\<close>

text \<open>
  Python list indexing with an \<open>int\<close>: a negative index counts from the end, anything
  outside \<open>[-n, n)\<close> raises \<open>IndexError\<close>.
\<close>

definition py_index :: "'a list \<Rightarrow> int \<Rightarrow> error + 'a" where
  "py_index xs i =
     (let n = int (length xs)
      in if 0 \<le> i \<and> i < n then Inr (xs ! nat i)
         else if - n \<le> i \<and> i < 0 then Inr (xs ! nat (n + i))
         else Inl IndexError)"

record engine =
  eng_trace :: trace
  flat :: "(span \<times> event) list"
  position :: int

definition span_pairs :: "trace \<Rightarrow> (span \<times> event) list" where
  "span_pairs t = concat (map (\<lambda>s. map (\<lambda>e. (s, e)) (events s)) (spans t))"

definition build_flat_list :: "trace \<Rightarrow> (span \<times> event) list" where
  "build_flat_list t = sort_key (\<lambda>p. timestamp (snd p)) (span_pairs t)"

definition ReplayEngine :: "trace \<Rightarrow> engine" where
  "ReplayEngine t = \<lparr>eng_trace = t, flat = build_flat_list t, position = 0\<rparr>"

definition total_steps :: "engine \<Rightarrow> nat" where
  "total_steps e = length (flat e)"

definition has_next :: "engine \<Rightarrow> bool" where
  "has_next e = (position e < int (length (flat e)))"

definition has_prev :: "engine \<Rightarrow> bool" where
  "has_prev e = (position e > 0)"

text \<open>
  Every method returns its result together with the engine after the call. The result is
  \<open>Inr None\<close> for Python's \<open>None\<close>, \<open>Inr (Some p)\<close> for a pair and \<open>Inl\<close> for an exception.
\<close>

type_synonym step_result = "error + (span \<times> event) option"

definition step :: "engine \<Rightarrow> step_result \<times> engine" where
  "step e =
     (if \<not> has_next e then (Inr None, e)
      else case py_index (flat e) (position e) of
             Inl err \<Rightarrow> (Inl err, e)
           | Inr r \<Rightarrow> (Inr (Some r), e\<lparr>position := position e + 1\<rparr>))"

definition step_back :: "engine \<Rightarrow> step_result \<times> engine" where
  "step_back e =
     (if \<not> has_prev e then (Inr None, e)
      else let e' = e\<lparr>position := position e - 1\<rparr>
           in case py_index (flat e') (position e') of
                Inl err \<Rightarrow> (Inl err, e')
              | Inr r \<Rightarrow> (Inr (Some r), e'))"

definition peek :: "engine \<Rightarrow> step_result" where
  "peek e =
     (if \<not> has_next e then Inr None
      else case py_index (flat e) (position e) of
             Inl err \<Rightarrow> Inl err
           | Inr r \<Rightarrow> Inr (Some r))"

definition jump :: "int \<Rightarrow> engine \<Rightarrow> step_result \<times> engine" where
  "jump k e =
     (if 0 \<le> k \<and> k < int (length (flat e))
      then let e' = e\<lparr>position := k\<rparr>
           in case py_index (flat e') (position e') of
                Inl err \<Rightarrow> (Inl err, e')
              | Inr r \<Rightarrow> (Inr (Some r), e')
      else (Inr None, e))"

definition reset :: "engine \<Rightarrow> engine" where
  "reset e = e\<lparr>position := 0\<rparr>"

definition current_span_events :: "engine \<Rightarrow> error + (span \<times> event) list" where
  "current_span_events e =
     (if flat e = [] \<or> position e \<ge> int (length (flat e)) then Inr []
      else case py_index (flat e) (min (position e) (int (length (flat e)) - 1)) of
             Inl err \<Rightarrow> Inl err
           | Inr cur \<Rightarrow>
               Inr (filter (\<lambda>p. span_id (fst p) = span_id (fst cur)) (flat e)))"

text \<open>
  \<open>search\<close> calls two functions of the Python library on text, and both are parameters here:
  \<open>str_lower\<close> is \<open>str.lower\<close>, and \<open>printed i\<close> is what the f-string makes of \<open>event.data\<close>
  for the tape entry at index \<open>i\<close>, the \<open>str\<close> of that dictionary. The substring test
  \<open>x in y\<close> of two strings is \<open>sublist\<close>; text outside ASCII is the list of its UTF-8 bytes,
  on which the substring test is the same.
\<close>

definition searchable :: "string \<Rightarrow> span \<times> event \<Rightarrow> string" where
  "searchable printed_data p =
     span_name (fst p) @ '' '' @ EventType_value (event_type (snd p)) @ '' '' @ printed_data"

definition search :: "(string \<Rightarrow> string) \<Rightarrow> (nat \<Rightarrow> string) \<Rightarrow> string \<Rightarrow> engine \<Rightarrow> nat list" where
  "search str_lower printed query e =
     map fst (filter (\<lambda>ip. sublist (str_lower query)
                               (str_lower (searchable (printed (fst ip)) (snd ip))))
                     (enumerate 0 (flat e)))"

text \<open>
  What \<open>str.lower\<close> does to text of ASCII characters only: \<open>A\<close> to \<open>Z\<close> become \<open>a\<close> to \<open>z\<close>.
  It stands for the parameter \<open>str_lower\<close> at the concrete inputs below, which are ASCII.
\<close>

definition ascii_lower_char :: "char \<Rightarrow> char" where
  "ascii_lower_char c =
     (let n = (of_char c :: nat) in if 65 \<le> n \<and> n \<le> 90 then char_of (n + 32) else c)"

definition ascii_lower :: "string \<Rightarrow> string" where
  "ascii_lower s = map ascii_lower_char s"

text \<open>A driver for sequences of calls: one constructor per public method.\<close>

datatype op = Step | StepBack | Peek | Jump int | Reset | Search string | CurrentSpanEvents

fun exec :: "(pydict \<Rightarrow> string) \<Rightarrow> op \<Rightarrow> engine \<Rightarrow> engine" where
  "exec fmt Step e = snd (step e)"
| "exec fmt StepBack e = snd (step_back e)"
| "exec fmt Peek e = e"
| "exec fmt (Jump k) e = snd (jump k e)"
| "exec fmt Reset e = reset e"
| "exec fmt (Search q) e = e"
| "exec fmt CurrentSpanEvents e = e"

fun run :: "(pydict \<Rightarrow> string) \<Rightarrow> op list \<Rightarrow> engine \<Rightarrow> engine" where
  "run fmt [] e = e"
| "run fmt (x # xs) e = run fmt xs (exec fmt x e)"

fun step_n :: "nat \<Rightarrow> engine \<Rightarrow> step_result list \<times> engine" where
  "step_n 0 e = ([], e)"
| "step_n (Suc n) e =
     (case step e of (r, e') \<Rightarrow> (case step_n n e' of (rs, e'') \<Rightarrow> (r # rs, e'')))"

section \<open>diff.py: Divergence, DiffResult, diff_traces\<close>

record divergence =
  div_position :: nat
  description :: string
  trace_a_event :: "event option"
  trace_b_event :: "event option"
  trace_a_span :: string
  trace_b_span :: string
  severity :: string

record DiffResult =
  trace_a_id :: string
  trace_b_id :: string
  divergences :: "divergence list"
  summary :: string

definition identical :: "DiffResult \<Rightarrow> bool" where
  "identical r = (length (divergences r) = 0)"

definition critical_count :: "DiffResult \<Rightarrow> nat" where
  "critical_count r = length (filter (\<lambda>d. severity d = ''critical'') (divergences r))"

text \<open>
  \<open>d.get(k)\<close> and \<open>d.get(k, default)\<close>: a missing key gives \<open>None\<close> or the default, it
  never raises.
\<close>

definition dict_get :: "pydict \<Rightarrow> string \<Rightarrow> json" where
  "dict_get d k = (case map_of d k of None \<Rightarrow> JNull | Some v \<Rightarrow> v)"

definition dict_get_default :: "pydict \<Rightarrow> string \<Rightarrow> json \<Rightarrow> json" where
  "dict_get_default d k dflt = (case map_of d k of None \<Rightarrow> dflt | Some v \<Rightarrow> v)"

text \<open>
  Python's \<open>==\<close> on these values: \<open>True == 1\<close> and \<open>False == 0\<close>, numbers compare by value,
  lists element by element, dictionaries by their keys and the values under them, whatever
  the insertion order. \<open>canon\<close> maps two values to the same term exactly when Python finds
  them equal (the keys of a dictionary being distinct).
\<close>

primrec canon :: "json \<Rightarrow> json" where
  "canon JNull = JNull"
| "canon (JBool b) = JNum (if b then 1 else 0)"
| "canon (JNum r) = JNum r"
| "canon (JStr s) = JStr s"
| "canon (JList xs) = JList (map canon xs)"
| "canon (JObj kvs) = JObj (sort_key fst (map (map_prod id canon) kvs))"

definition py_eq :: "json \<Rightarrow> json \<Rightarrow> bool" where
  "py_eq a b = (canon a = canon b)"

definition py_ne :: "json \<Rightarrow> json \<Rightarrow> bool" where
  "py_ne a b = (\<not> py_eq a b)"

definition span_for_event :: "trace \<Rightarrow> event \<Rightarrow> string" where
  "span_for_event t ev =
     (case find (\<lambda>s. list_ex (\<lambda>e. event_id e = event_id ev) (events s)) (spans t) of
        Some s \<Rightarrow> span_name s
      | None \<Rightarrow> ''unknown'')"

definition nth_or_none :: "'a list \<Rightarrow> nat \<Rightarrow> 'a option" where
  "nth_or_none xs i = (if i < length xs then Some (xs ! i) else None)"

text \<open>
  The body of the loop at index \<open>i\<close>: the divergences it appends (none or one). How
  a payload value prints inside a description is the parameter \<open>str_json\<close>. With both
  sides exhausted the source would read \<open>eb.event_type\<close> of \<open>None\<close>.
\<close>

definition compare_payload ::
  "(json \<Rightarrow> string) \<Rightarrow> trace \<Rightarrow> trace \<Rightarrow> nat \<Rightarrow> event \<Rightarrow> event \<Rightarrow> divergence list" where
  "compare_payload str_json ta tb i ea eb =
     (if event_type ea = TOOL_CALL then
        (if py_ne (dict_get (data ea) ''tool'') (dict_get (data eb) ''tool'') then
           [\<lparr>div_position = i,
             description = ''Different tool called: '' @ str_json (dict_get (data ea) ''tool'')
                           @ '' vs '' @ str_json (dict_get (data eb) ''tool''),
             trace_a_event = Some ea, trace_b_event = Some eb,
             trace_a_span = span_for_event ta ea, trace_b_span = span_for_event tb eb,
             severity = ''critical''\<rparr>]
         else [])
      else if event_type ea = LLM_RESPONSE then
        (if py_ne (dict_get_default (data ea) ''content'' (JStr []))
                  (dict_get_default (data eb) ''content'' (JStr [])) then
           [\<lparr>div_position = i,
             description = ''LLM response content differs'',
             trace_a_event = Some ea, trace_b_event = Some eb,
             trace_a_span = span_for_event ta ea, trace_b_span = span_for_event tb eb,
             severity = ''info''\<rparr>]
         else [])
      else if event_type ea = DECISION then
        (if py_ne (dict_get (data ea) ''choice'') (dict_get (data eb) ''choice'') then
           [\<lparr>div_position = i,
             description = ''Decision divergence: '' @ [CHR 0x27]
                           @ str_json (dict_get (data ea) ''choice'') @ [CHR 0x27] @ '' vs ''
                           @ [CHR 0x27] @ str_json (dict_get (data eb) ''choice'') @ [CHR 0x27],
             trace_a_event = Some ea, trace_b_event = Some eb,
             trace_a_span = span_for_event ta ea, trace_b_span = span_for_event tb eb,
             severity = ''critical''\<rparr>]
         else [])
      else [])"

definition diff_at ::
  "(json \<Rightarrow> string) \<Rightarrow> trace \<Rightarrow> trace \<Rightarrow> event list \<Rightarrow> event list \<Rightarrow> nat
     \<Rightarrow> error + divergence list" where
  "diff_at str_json ta tb events_a events_b i =
     (case nth_or_none events_a i of
        None \<Rightarrow>
          (case nth_or_none events_b i of
             None \<Rightarrow> Inl AttributeError
           | Some eb \<Rightarrow>
               Inr [\<lparr>div_position = i,
                      description = ''Trace B has extra event: '' @ EventType_value (event_type eb),
                      trace_a_event = None, trace_b_event = Some eb,
                      trace_a_span = [], trace_b_span = span_for_event tb eb,
                      severity = ''warning''\<rparr>])
      | Some ea \<Rightarrow>
          (case nth_or_none events_b i of
             None \<Rightarrow>
               Inr [\<lparr>div_position = i,
                      description = ''Trace A has extra event: '' @ EventType_value (event_type ea),
                      trace_a_event = Some ea, trace_b_event = None,
                      trace_a_span = span_for_event ta ea, trace_b_span = [],
                      severity = ''warning''\<rparr>]
           | Some eb \<Rightarrow>
               (if event_type ea \<noteq> event_type eb then
                  Inr [\<lparr>div_position = i,
                         description = ''Event type divergence: '' @ EventType_value (event_type ea)
                                       @ '' vs '' @ EventType_value (event_type eb),
                         trace_a_event = Some ea, trace_b_event = Some eb,
                         trace_a_span = span_for_event ta ea, trace_b_span = span_for_event tb eb,
                         severity = ''critical''\<rparr>]
                else Inr (compare_payload str_json ta tb i ea eb))))"

fun diff_loop :: "(nat \<Rightarrow> error + divergence list) \<Rightarrow> nat list \<Rightarrow> divergence list
    \<Rightarrow> error + divergence list" where
  "diff_loop body [] acc = Inr acc"
| "diff_loop body (i # is) acc =
     (case body i of Inl err \<Rightarrow> Inl err | Inr ds \<Rightarrow> diff_loop body is (acc @ ds))"

text \<open>
  \<open>diff_traces\<close>. The two \<open>span_lookup\<close> dictionaries of the source are built and never
  read. How an \<open>int\<close> prints in the summary is the parameter \<open>str_int\<close>.
\<close>

definition make_summary :: "(nat \<Rightarrow> string) \<Rightarrow> divergence list \<Rightarrow> string" where
  "make_summary str_int ds =
     (let n = length ds; c = length (filter (\<lambda>d. severity d = ''critical'') ds)
      in if n = 0 then ''Traces are identical in structure and content.''
         else ''Found '' @ str_int n @ '' divergence(s): '' @ str_int c @ '' critical, ''
              @ str_int (n - c) @ '' informational.'')"

definition diff_traces ::
  "(json \<Rightarrow> string) \<Rightarrow> (nat \<Rightarrow> string) \<Rightarrow> trace \<Rightarrow> trace \<Rightarrow> error + DiffResult" where
  "diff_traces str_json str_int ta tb =
     (let events_a = all_events ta;
          events_b = all_events tb;
          max_len = max (length events_a) (length events_b)
      in case diff_loop (diff_at str_json ta tb events_a events_b) [0..<max_len] [] of
           Inl err \<Rightarrow> Inl err
         | Inr ds \<Rightarrow>
             Inr \<lparr>trace_a_id = trace_id ta, trace_b_id = trace_id tb,
                  divergences = ds, summary = make_summary str_int ds\<rparr>)"

section \<open>trace.py: building, saving and loading a trace\<close>

text \<open>
  \<open>time.time()\<close> and \<open>uuid.uuid4()\<close> are read from the environment: every function that
  calls them takes the value read as an argument. \<open>Trace.add_span\<close> forwards \<open>**kwargs\<close> to
  the \<open>Span\<close> constructor; the keyword the repository passes is \<open>metadata\<close>.
\<close>

definition new_trace :: "string \<Rightarrow> rat \<Rightarrow> string \<Rightarrow> pydict \<Rightarrow> trace" where
  "new_trace fresh_id now nm md =
     \<lparr>trace_id = fresh_id, trace_name = nm, trace_start_time = now, trace_end_time = None,
      spans = [], trace_metadata = md\<rparr>"

definition add_span :: "string \<Rightarrow> rat \<Rightarrow> string \<Rightarrow> string option \<Rightarrow> pydict \<Rightarrow> trace \<Rightarrow> trace" where
  "add_span fresh_id now nm parent md t =
     t\<lparr>spans := spans t @
        [\<lparr>span_name = nm, span_id = fresh_id, parent_id = parent, span_start_time = now,
          span_end_time = None, events = [], span_metadata = md\<rparr>]\<rparr>"

definition Span_add_event :: "string \<Rightarrow> rat \<Rightarrow> EventType \<Rightarrow> pydict option \<Rightarrow> span \<Rightarrow> span" where
  "Span_add_event fresh_id now et d s =
     s\<lparr>events := events s @
        [\<lparr>event_type = et, timestamp = now,
          data = (case d of None \<Rightarrow> [] | Some kvs \<Rightarrow> kvs), event_id = fresh_id\<rparr>]\<rparr>"

text \<open>
  The span object \<open>add_span\<close> returns is the one stored in the trace, so \<open>span.add_event\<close>
  updates the trace's span list in place: \<open>add_event\<close> names the span by its index there.
\<close>

definition add_event ::
  "nat \<Rightarrow> string \<Rightarrow> rat \<Rightarrow> EventType \<Rightarrow> pydict option \<Rightarrow> trace \<Rightarrow> trace" where
  "add_event i fresh_id now et d t =
     (if i < length (spans t)
      then t\<lparr>spans := (spans t)[i := Span_add_event fresh_id now et d (spans t ! i)]\<rparr>
      else t)"

definition Span_close :: "rat \<Rightarrow> span \<Rightarrow> span" where
  "Span_close now s = s\<lparr>span_end_time := Some now\<rparr>"

definition Trace_close :: "rat \<Rightarrow> (nat \<Rightarrow> rat) \<Rightarrow> trace \<Rightarrow> trace" where
  "Trace_close now span_now t =
     t\<lparr>trace_end_time := Some now,
       spans := map (\<lambda>(i, s). if span_end_time s = None then Span_close (span_now i) s else s)
                    (enumerate 0 (spans t))\<rparr>"

datatype build_op =
    AddSpan string rat string "string option" pydict
  | AddEvent nat string rat EventType "pydict option"

fun build_step :: "trace \<Rightarrow> build_op \<Rightarrow> trace" where
  "build_step t (AddSpan fresh_id now nm parent md) = add_span fresh_id now nm parent md t"
| "build_step t (AddEvent i fresh_id now et d) = add_event i fresh_id now et d t"

definition build :: "trace \<Rightarrow> build_op list \<Rightarrow> trace" where
  "build t ops = foldl build_step t ops"

subsection \<open>to_dict and save\<close>

definition opt_num :: "rat option \<Rightarrow> json" where
  "opt_num x = (case x of None \<Rightarrow> JNull | Some r \<Rightarrow> JNum r)"

definition opt_str :: "string option \<Rightarrow> json" where
  "opt_str x = (case x of None \<Rightarrow> JNull | Some s \<Rightarrow> JStr s)"

definition Event_to_dict :: "event \<Rightarrow> pydict" where
  "Event_to_dict e =
     [(''event_type'', JStr (EventType_value (event_type e))),
      (''timestamp'', JNum (timestamp e)),
      (''data'', JObj (data e)),
      (''event_id'', JStr (event_id e))]"

definition Span_to_dict :: "span \<Rightarrow> pydict" where
  "Span_to_dict s =
     [(''name'', JStr (span_name s)),
      (''span_id'', JStr (span_id s)),
      (''parent_id'', opt_str (parent_id s)),
      (''start_time'', JNum (span_start_time s)),
      (''end_time'', opt_num (span_end_time s)),
      (''events'', JList (map (\<lambda>e. JObj (Event_to_dict e)) (events s))),
      (''metadata'', JObj (span_metadata s))]"

text \<open>
  A file is the list of its lines. What \<open>line.strip()\<close> and \<open>json.loads\<close> make of a line is
  its constructor: empty after stripping, not JSON, or the value parsed; \<open>json.dumps\<close> of a
  value writes one line that \<open>json.loads\<close> parses back to it.
\<close>

datatype line = Blank | Malformed | Json json

definition save :: "trace \<Rightarrow> line list" where
  "save t =
     Json (JObj [(''type'', JStr ''trace_header''),
                 (''trace_id'', JStr (trace_id t)),
                 (''name'', JStr (trace_name t)),
                 (''start_time'', JNum (trace_start_time t)),
                 (''end_time'', opt_num (trace_end_time t)),
                 (''metadata'', JObj (trace_metadata t))])
     # map (\<lambda>s. Json (JObj ((''type'', JStr ''span'') # Span_to_dict s))) (spans t)"

subsection \<open>from_dict and load\<close>

text \<open>
  The source stores what it reads without checking it against the declared field types. An
  object with a field outside its declared type is no value of the records above, so loading
  has three outcomes: Python raises, Python returns such an object, or it returns a trace.
\<close>

datatype 'a outcome = Raises error | IllTyped | Returns 'a

fun collect :: "'a outcome list \<Rightarrow> 'a list outcome" where
  "collect [] = Returns []"
| "collect (x # xs) =
     (case x of
        Raises err \<Rightarrow> Raises err
      | IllTyped \<Rightarrow> (case collect xs of Raises err \<Rightarrow> Raises err | _ \<Rightarrow> IllTyped)
      | Returns v \<Rightarrow>
          (case collect xs of
             Raises err \<Rightarrow> Raises err
           | IllTyped \<Rightarrow> IllTyped
           | Returns vs \<Rightarrow> Returns (v # vs)))"

fun as_str :: "json \<Rightarrow> string option" where
  "as_str (JStr s) = Some s"
| "as_str _ = None"

fun as_num :: "json \<Rightarrow> rat option" where
  "as_num (JNum r) = Some r"
| "as_num _ = None"

fun as_dict :: "json \<Rightarrow> pydict option" where
  "as_dict (JObj kvs) = Some kvs"
| "as_dict _ = None"

fun as_opt_str :: "json \<Rightarrow> string option option" where
  "as_opt_str JNull = Some None"
| "as_opt_str (JStr s) = Some (Some s)"
| "as_opt_str _ = None"

fun as_opt_num :: "json \<Rightarrow> rat option option" where
  "as_opt_num JNull = Some None"
| "as_opt_num (JNum r) = Some (Some r)"
| "as_opt_num _ = None"

text \<open>\<open>EventType(v)\<close>: the member whose value is \<open>v\<close>, \<open>ValueError\<close> when there is none.\<close>

definition EventType_of :: "json \<Rightarrow> EventType option" where
  "EventType_of v =
     (case v of
        JStr s \<Rightarrow>
          find (\<lambda>et. EventType_value et = s)
            [LLM_REQUEST, LLM_RESPONSE, TOOL_CALL, TOOL_RESULT, DECISION, STATE_CHANGE, ERROR, LOG]
      | _ \<Rightarrow> None)"

definition make_event :: "EventType \<Rightarrow> json \<Rightarrow> json \<Rightarrow> json \<Rightarrow> event outcome" where
  "make_event et ts dv iv =
     (case (as_num ts, as_dict dv, as_str iv) of
        (Some t, Some d, Some i) \<Rightarrow>
          Returns \<lparr>event_type = et, timestamp = t, data = d, event_id = i\<rparr>
      | _ \<Rightarrow> IllTyped)"

definition Event_from_dict :: "string \<Rightarrow> json \<Rightarrow> event outcome" where
  "Event_from_dict fresh_id d =
     (case d of
        JObj kvs \<Rightarrow>
          (case map_of kvs ''event_type'' of
             None \<Rightarrow> Raises (KeyError ''event_type'')
           | Some tv \<Rightarrow>
               (case EventType_of tv of
                  None \<Rightarrow> Raises ValueError
                | Some et \<Rightarrow>
                    (case map_of kvs ''timestamp'' of
                       None \<Rightarrow> Raises (KeyError ''timestamp'')
                     | Some ts \<Rightarrow>
                         make_event et ts (dict_get_default kvs ''data'' (JObj []))
                           (dict_get_default kvs ''event_id'' (JStr fresh_id)))))
      | _ \<Rightarrow> Raises TypeError)"

text \<open>
  What the comprehension \<open>for e in d.get("events", [])\<close> iterates over: the elements of a
  list, the keys of a dictionary, the characters of a string; anything else is not iterable.
\<close>

fun iter_json :: "json \<Rightarrow> error + json list" where
  "iter_json (JList xs) = Inr xs"
| "iter_json (JObj kvs) = Inr (map (\<lambda>kv. JStr (fst kv)) kvs)"
| "iter_json (JStr s) = Inr (map (\<lambda>c. JStr [c]) s)"
| "iter_json _ = Inl TypeError"

definition make_span ::
  "json \<Rightarrow> json \<Rightarrow> json \<Rightarrow> json \<Rightarrow> json \<Rightarrow> event list \<Rightarrow> json \<Rightarrow> span outcome" where
  "make_span nv iv pv sv ev evs mv =
     (case (as_str nv, as_str iv, as_opt_str pv, as_num sv, as_opt_num ev, as_dict mv) of
        (Some n, Some i, Some p, Some st, Some en, Some m) \<Rightarrow>
          Returns \<lparr>span_name = n, span_id = i, parent_id = p, span_start_time = st,
                   span_end_time = en, events = evs, span_metadata = m\<rparr>
      | _ \<Rightarrow> IllTyped)"

definition Span_from_dict :: "(nat \<Rightarrow> string) \<Rightarrow> json \<Rightarrow> span outcome" where
  "Span_from_dict fresh_ids d =
     (case d of
        JObj kvs \<Rightarrow>
          (case map_of kvs ''name'' of
             None \<Rightarrow> Raises (KeyError ''name'')
           | Some nv \<Rightarrow>
          (case map_of kvs ''span_id'' of
             None \<Rightarrow> Raises (KeyError ''span_id'')
           | Some iv \<Rightarrow>
          (case map_of kvs ''start_time'' of
             None \<Rightarrow> Raises (KeyError ''start_time'')
           | Some sv \<Rightarrow>
          (case iter_json (dict_get_default kvs ''events'' (JList [])) of
             Inl err \<Rightarrow> Raises err
           | Inr es \<Rightarrow>
          (case collect (map (\<lambda>(i, e). Event_from_dict (fresh_ids i) e) (enumerate 0 es)) of
             Raises err \<Rightarrow> Raises err
           | IllTyped \<Rightarrow> IllTyped
           | Returns evs \<Rightarrow>
               make_span nv iv (dict_get kvs ''parent_id'') sv (dict_get kvs ''end_time'') evs
                 (dict_get_default kvs ''metadata'' (JObj [])))))))
      | _ \<Rightarrow> Raises TypeError)"

definition dict_pop :: "pydict \<Rightarrow> string \<Rightarrow> pydict" where
  "dict_pop d k = filter (\<lambda>kv. fst kv \<noteq> k) d"

text \<open>
  The loop of \<open>Trace.load\<close> over the lines, with the header and the spans read so far
  (\<open>None\<close> for a span outside the declared types); \<open>n\<close> counts the lines, for the identifiers
  drawn while reading line \<open>n\<close>.
\<close>

fun load_loop ::
  "(nat \<Rightarrow> nat \<Rightarrow> string) \<Rightarrow> line list \<Rightarrow> nat \<Rightarrow> pydict \<Rightarrow> span option list
     \<Rightarrow> error + pydict \<times> span option list" where
  "load_loop fresh_ids [] n header acc = Inr (header, acc)"
| "load_loop fresh_ids (l # ls) n header acc =
     (case l of
        Blank \<Rightarrow> load_loop fresh_ids ls (Suc n) header acc
      | Malformed \<Rightarrow> Inl JSONDecodeError
      | Json v \<Rightarrow>
          (case v of
             JObj kvs \<Rightarrow>
               (if map_of kvs ''type'' = Some (JStr ''trace_header'')
                then load_loop fresh_ids ls (Suc n) kvs acc
                else if map_of kvs ''type'' = Some (JStr ''span'')
                then (case Span_from_dict (fresh_ids n) (JObj (dict_pop kvs ''type'')) of
                        Raises err \<Rightarrow> Inl err
                      | IllTyped \<Rightarrow> load_loop fresh_ids ls (Suc n) header (acc @ [None])
                      | Returns s \<Rightarrow> load_loop fresh_ids ls (Suc n) header (acc @ [Some s]))
                else load_loop fresh_ids ls (Suc n) header acc)
           | _ \<Rightarrow> Inl AttributeError))"

definition make_trace :: "json \<Rightarrow> json \<Rightarrow> json \<Rightarrow> json \<Rightarrow> span list \<Rightarrow> json \<Rightarrow> trace outcome" where
  "make_trace iv nv sv ev sps mv =
     (case (as_str iv, as_str nv, as_num sv, as_opt_num ev, as_dict mv) of
        (Some i, Some n, Some st, Some en, Some m) \<Rightarrow>
          Returns \<lparr>trace_id = i, trace_name = n, trace_start_time = st, trace_end_time = en,
                   spans = sps, trace_metadata = m\<rparr>
      | _ \<Rightarrow> IllTyped)"

definition load :: "string \<Rightarrow> (nat \<Rightarrow> nat \<Rightarrow> string) \<Rightarrow> line list \<Rightarrow> trace outcome" where
  "load fresh_trace_id fresh_ids ls =
     (case load_loop fresh_ids ls 0 [] [] of
        Inl err \<Rightarrow> Raises err
      | Inr (header, acc) \<Rightarrow>
          (case those acc of
             None \<Rightarrow> IllTyped
           | Some sps \<Rightarrow>
               make_trace (dict_get_default header ''trace_id'' (JStr fresh_trace_id))
                 (dict_get_default header ''name'' (JStr ''unnamed''))
                 (dict_get_default header ''start_time'' (JNum 0))
                 (dict_get header ''end_time'')
                 sps
                 (dict_get_default header ''metadata'' (JObj []))))"

section \<open>A recorded trace used as the concrete input\<close>

definition ex_e1 :: event where
  "ex_e1 = \<lparr>event_type = LLM_REQUEST, timestamp = 1, data = [(''model'', JStr ''gpt-4'')],
            event_id = ''e1''\<rparr>"

definition ex_e2 :: event where
  "ex_e2 = \<lparr>event_type = LLM_RESPONSE, timestamp = 2, data = [(''content'', JStr ''hi'')],
            event_id = ''e2''\<rparr>"

definition ex_e3 :: event where
  "ex_e3 = \<lparr>event_type = TOOL_CALL, timestamp = 3, data = [(''tool'', JStr ''search'')],
            event_id = ''e3''\<rparr>"

definition ex_s1 :: span where
  "ex_s1 = \<lparr>span_name = ''plan'', span_id = ''s1'', parent_id = None, span_start_time = 0,
            span_end_time = Some 4, events = [ex_e1, ex_e3], span_metadata = []\<rparr>"

definition ex_s2 :: span where
  "ex_s2 = \<lparr>span_name = ''act'', span_id = ''s2'', parent_id = Some ''s1'', span_start_time = 1,
            span_end_time = Some 3, events = [ex_e2], span_metadata = []\<rparr>"

definition ex_trace :: trace where
  "ex_trace = \<lparr>trace_id = ''t1'', trace_name = ''run'', trace_start_time = 0,
               trace_end_time = Some 5, spans = [ex_s1, ex_s2], trace_metadata = []\<rparr>"

definition ex_e4 :: event where
  "ex_e4 = \<lparr>event_type = TOOL_RESULT, timestamp = 4, data = [(''tool'', JStr ''search'')],
            event_id = ''e4''\<rparr>"

definition ex_e3_browse :: event where
  "ex_e3_browse = \<lparr>event_type = TOOL_CALL, timestamp = 3, data = [(''tool'', JStr ''browse'')],
                   event_id = ''e3''\<rparr>"

definition ex_e3_no_tool :: event where
  "ex_e3_no_tool = \<lparr>event_type = TOOL_CALL, timestamp = 3, data = [], event_id = ''e3''\<rparr>"

definition ex_trace_extra :: trace where
  "ex_trace_extra = ex_trace\<lparr>spans := [ex_s1, ex_s2\<lparr>events := [ex_e2, ex_e4]\<rparr>]\<rparr>"

definition ex_trace_browse :: trace where
  "ex_trace_browse = ex_trace\<lparr>spans := [ex_s1\<lparr>events := [ex_e1, ex_e3_browse]\<rparr>, ex_s2]\<rparr>"

definition ex_trace_no_tool :: trace where
  "ex_trace_no_tool = ex_trace\<lparr>spans := [ex_s1\<lparr>events := [ex_e1, ex_e3_no_tool]\<rparr>, ex_s2]\<rparr>"

definition ex_empty :: trace where
  "ex_empty = new_trace ''t0'' 0 ''empty'' []"

definition ex_no_events :: trace where
  "ex_no_events = add_span ''s0'' 1 ''idle'' None [] (new_trace ''t9'' 0 ''idle-run'' [])"

definition ex_log_event :: event where
  "ex_log_event = \<lparr>event_type = LOG, timestamp = 1, data = [], event_id = ''l1''\<rparr>"

definition ex_log_span :: span where
  "ex_log_span = \<lparr>span_name = ''plan'', span_id = ''p1'', parent_id = None, span_start_time = 0,
                  span_end_time = Some 2, events = [ex_log_event], span_metadata = []\<rparr>"

definition ex_log_trace :: trace where
  "ex_log_trace = \<lparr>trace_id = ''t2'', trace_name = ''log-run'', trace_start_time = 0,
                   trace_end_time = Some 3, spans = [ex_log_span], trace_metadata = []\<rparr>"

section \<open>Properties of the canonical order\<close>

lemma insort_key_map_snd:
  "map snd (insort_key (\<lambda>p. f (snd p)) p ps) = insort_key f (snd p) (map snd ps)"
  by (induction ps) auto

lemma sort_key_map_snd:
  "map snd (sort_key (\<lambda>p. f (snd p)) ps) = sort_key f (map snd ps)"
  by (induction ps) (auto simp: insort_key_map_snd)

lemma map_snd_span_pairs: "map snd (span_pairs t) = concat (map events (spans t))"
  by (simp add: span_pairs_def map_concat comp_def)

lemma span_pairs_owned:
  "p \<in> set (span_pairs t) \<Longrightarrow> fst p \<in> set (spans t) \<and> snd p \<in> set (events (fst p))"
  by (auto simp: span_pairs_def)


text \<open>
  C1. \<open>all_events\<close> returns every event of every span, sorted by timestamp in non-decreasing
  order; events with one timestamp \<open>k\<close> keep the order in which the spans and their event
  lists store them. The tape of the replay engine is this sequence, each event paired with a
  span of the trace whose event list holds it, with the same rule for equal timestamps.
\<close>

theorem all_events_canonical_order:
  "mset (all_events t) = mset (concat (map events (spans t)))
   \<and> sorted (map timestamp (all_events t))
   \<and> filter (\<lambda>e. timestamp e = k) (all_events t)
       = filter (\<lambda>e. timestamp e = k) (concat (map events (spans t)))
   \<and> map snd (flat (ReplayEngine t)) = all_events t
   \<and> list_all (\<lambda>p. fst p \<in> set (spans t) \<and> snd p \<in> set (events (fst p)))
         (flat (ReplayEngine t))
   \<and> filter (\<lambda>p. timestamp (snd p) = k) (flat (ReplayEngine t))
       = filter (\<lambda>p. timestamp (snd p) = k) (span_pairs t)"
proof (intro conjI)
  show "mset (all_events t) = mset (concat (map events (spans t)))"
    by (simp add: all_events_def)
  show "sorted (map timestamp (all_events t))"
    by (simp add: all_events_def)
  show "filter (\<lambda>e. timestamp e = k) (all_events t)
       = filter (\<lambda>e. timestamp e = k) (concat (map events (spans t)))"
    by (simp add: all_events_def sort_key_stable)
  show "map snd (flat (ReplayEngine t)) = all_events t"
    by (simp add: ReplayEngine_def build_flat_list_def all_events_def sort_key_map_snd
        map_snd_span_pairs)
  show "list_all (\<lambda>p. fst p \<in> set (spans t) \<and> snd p \<in> set (events (fst p)))
         (flat (ReplayEngine t))"
    by (simp add: ReplayEngine_def build_flat_list_def list_all_iff span_pairs_owned)
  show "filter (\<lambda>p. timestamp (snd p) = k) (flat (ReplayEngine t))
       = filter (\<lambda>p. timestamp (snd p) = k) (span_pairs t)"
    by (simp add: ReplayEngine_def build_flat_list_def sort_key_stable)
qed

section \<open>Properties of the cursor\<close>

lemma py_index_nat: "i < length xs \<Longrightarrow> py_index xs (int i) = Inr (xs ! i)"
  by (simp add: py_index_def)

lemma py_index_in_range: "0 \<le> k \<Longrightarrow> k < int (length xs) \<Longrightarrow> py_index xs k = Inr (xs ! nat k)"
  by (simp add: py_index_def)

lemma step_in_range:
  "position e = int p \<Longrightarrow> p < length (flat e) \<Longrightarrow>
   step e = (Inr (Some (flat e ! p)), e\<lparr>position := int (Suc p)\<rparr>)"
  by (simp add: step_def has_next_def py_index_nat)

lemma step_at_end:
  "position e \<ge> int (length (flat e)) \<Longrightarrow> step e = (Inr None, e)"
  by (simp add: step_def has_next_def)

lemma step_n_from:
  "position e = int p \<Longrightarrow> p + n \<le> length (flat e) \<Longrightarrow>
   step_n n e = (map (\<lambda>r. Inr (Some r)) (take n (drop p (flat e))), e\<lparr>position := int (p + n)\<rparr>)"
proof (induction n arbitrary: e p)
  case 0
  then show ?case by simp
next
  case (Suc n)
  have lt: "p < length (flat e)" using Suc.prems by simp
  let ?e' = "e\<lparr>position := int (Suc p)\<rparr>"
  have st: "step e = (Inr (Some (flat e ! p)), ?e')"
    using Suc.prems(1) lt by (rule step_in_range)
  have rec: "step_n n ?e' = (map (\<lambda>r. Inr (Some r)) (take n (drop (Suc p) (flat ?e'))), ?e'\<lparr>position := int (Suc p + n)\<rparr>)"
    by (rule Suc.IH) (use Suc.prems in simp_all)
  have dr: "take (Suc n) (drop p (flat e)) = flat e ! p # take n (drop (Suc p) (flat e))"
    using lt by (simp add: Cons_nth_drop_Suc[symmetric])
  show ?case using st rec dr by simp
qed

lemma ex_ts [simp]: "timestamp ex_e1 = 1" "timestamp ex_e2 = 2" "timestamp ex_e3 = 3"
  by (simp_all add: ex_e1_def ex_e2_def ex_e3_def)

lemma ex_flat: "build_flat_list ex_trace = [(ex_s1, ex_e1), (ex_s2, ex_e2), (ex_s1, ex_e3)]"
  by (simp add: build_flat_list_def span_pairs_def ex_trace_def ex_s1_def ex_s2_def sort_key_def)

lemma ex_engine: "ReplayEngine ex_trace = \<lparr>eng_trace = ex_trace, flat = [(ex_s1, ex_e1), (ex_s2, ex_e2), (ex_s1, ex_e3)], position = 0\<rparr>"
  by (simp add: ReplayEngine_def ex_flat)

lemma ex_flat_eng: "flat (ReplayEngine ex_trace) = [(ex_s1, ex_e1), (ex_s2, ex_e2), (ex_s1, ex_e3)]"
  by (simp add: ex_engine)

lemma ex_pos: "position (ReplayEngine ex_trace) = 0"
  by (simp add: ReplayEngine_def)

lemma total_steps_position_update: "total_steps (e\<lparr>position := p\<rparr>) = total_steps e"
  by (simp add: total_steps_def)

lemma ex_total: "total_steps (ReplayEngine ex_trace) = 3"
  by (simp add: total_steps_def ex_flat_eng)

text \<open>
  C3. On a fresh engine, \<open>total_steps\<close> calls of \<open>step\<close> return the tape entries in order,
  once each, and leave the cursor at \<open>total_steps\<close>. With the cursor at the end \<open>step\<close>
  returns \<open>None\<close> and changes nothing, and so does \<open>step_back\<close> with the cursor at 0.
  \<open>jump k\<close> with \<open>0 \<le> k < total_steps\<close> moves the cursor to \<open>k\<close> and returns the entry there,
  which a following \<open>peek\<close> returns too; any other \<open>jump\<close> returns \<open>None\<close> and changes nothing.
\<close>

theorem cursor_invariants:
  "step_n (total_steps (ReplayEngine t)) (ReplayEngine t)
     = (map (\<lambda>p. Inr (Some p)) (flat (ReplayEngine t)),
        (ReplayEngine t)\<lparr>position := int (total_steps (ReplayEngine t))\<rparr>)
   \<and> (position e1 = int (total_steps e1) \<longrightarrow> step e1 = (Inr None, e1))
   \<and> (position e0 = 0 \<longrightarrow> step_back e0 = (Inr None, e0))
   \<and> (0 \<le> k \<and> k < int (total_steps e) \<longrightarrow>
        jump k e = (Inr (Some (flat e ! nat k)), e\<lparr>position := k\<rparr>)
        \<and> peek (snd (jump k e)) = Inr (Some (flat e ! nat k)))
   \<and> (j < 0 \<or> j \<ge> int (total_steps e) \<longrightarrow> jump j e = (Inr None, e))"
proof (intro conjI impI)
  have "position (ReplayEngine t) = int 0" by (simp add: ReplayEngine_def)
  from step_n_from[OF this, of "total_steps (ReplayEngine t)"]
  show "step_n (total_steps (ReplayEngine t)) (ReplayEngine t)
     = (map (\<lambda>p. Inr (Some p)) (flat (ReplayEngine t)),
        (ReplayEngine t)\<lparr>position := int (total_steps (ReplayEngine t))\<rparr>)"
    by (simp add: total_steps_def)
next
  assume "position e1 = int (total_steps e1)"
  then show "step e1 = (Inr None, e1)" by (simp add: step_at_end total_steps_def)
next
  assume "position e0 = 0"
  then show "step_back e0 = (Inr None, e0)" by (simp add: step_back_def has_prev_def)
next
  assume k: "0 \<le> k \<and> k < int (total_steps e)"
  then show "jump k e = (Inr (Some (flat e ! nat k)), e\<lparr>position := k\<rparr>)"
    by (simp add: jump_def total_steps_def py_index_in_range)
  with k show "peek (snd (jump k e)) = Inr (Some (flat e ! nat k))"
    by (simp add: peek_def has_next_def total_steps_def py_index_in_range)
next
  assume "j < 0 \<or> j \<ge> int (total_steps e)"
  then show "jump j e = (Inr None, e)" by (auto simp: jump_def total_steps_def)
qed

theorem cursor_invariants_witness:
  "step_n 3 (ReplayEngine ex_trace)
     = ([Inr (Some (ex_s1, ex_e1)), Inr (Some (ex_s2, ex_e2)), Inr (Some (ex_s1, ex_e3))],
        (ReplayEngine ex_trace)\<lparr>position := 3\<rparr>)
   \<and> step ((ReplayEngine ex_trace)\<lparr>position := 3\<rparr>) = (Inr None, (ReplayEngine ex_trace)\<lparr>position := 3\<rparr>)
   \<and> step_back (ReplayEngine ex_trace) = (Inr None, ReplayEngine ex_trace)
   \<and> jump 2 (ReplayEngine ex_trace) = (Inr (Some (ex_s1, ex_e3)), (ReplayEngine ex_trace)\<lparr>position := 2\<rparr>)
   \<and> peek (snd (jump 2 (ReplayEngine ex_trace))) = Inr (Some (ex_s1, ex_e3))
   \<and> jump 3 (ReplayEngine ex_trace) = (Inr None, ReplayEngine ex_trace)
   \<and> jump (- 1) (ReplayEngine ex_trace) = (Inr None, ReplayEngine ex_trace)"
  using cursor_invariants [of ex_trace "(ReplayEngine ex_trace)\<lparr>position := 3\<rparr>" "ReplayEngine ex_trace" 2 "ReplayEngine ex_trace" 3]
        cursor_invariants [of ex_trace "(ReplayEngine ex_trace)\<lparr>position := 3\<rparr>" "ReplayEngine ex_trace" 2 "ReplayEngine ex_trace" "- 1"]
  by (simp add: ex_flat_eng ex_pos ex_total total_steps_position_update del: step_n.simps)

lemma step_keeps_bounds:
  "0 \<le> position e \<Longrightarrow> position e \<le> int (length (flat e)) \<Longrightarrow>
   flat (snd (step e)) = flat e \<and> 0 \<le> position (snd (step e))
   \<and> position (snd (step e)) \<le> int (length (flat e))"
  by (auto simp: step_def has_next_def py_index_def Let_def)

lemma step_back_keeps_bounds:
  "0 \<le> position e \<Longrightarrow> position e \<le> int (length (flat e)) \<Longrightarrow>
   flat (snd (step_back e)) = flat e \<and> 0 \<le> position (snd (step_back e))
   \<and> position (snd (step_back e)) \<le> int (length (flat e))"
  by (auto simp: step_back_def has_prev_def py_index_def Let_def)

lemma jump_keeps_bounds:
  "0 \<le> position e \<Longrightarrow> position e \<le> int (length (flat e)) \<Longrightarrow>
   flat (snd (jump k e)) = flat e \<and> 0 \<le> position (snd (jump k e))
   \<and> position (snd (jump k e)) \<le> int (length (flat e))"
  by (auto simp: jump_def py_index_def Let_def)

lemma exec_keeps_bounds:
  "0 \<le> position e \<Longrightarrow> position e \<le> int (length (flat e)) \<Longrightarrow>
   flat (exec fmt x e) = flat e \<and> 0 \<le> position (exec fmt x e)
   \<and> position (exec fmt x e) \<le> int (length (flat e))"
  by (cases x) (simp_all add: step_keeps_bounds step_back_keeps_bounds jump_keeps_bounds reset_def)

lemma run_keeps_bounds:
  "0 \<le> position e \<Longrightarrow> position e \<le> int (length (flat e)) \<Longrightarrow>
   flat (run fmt xs e) = flat e \<and> 0 \<le> position (run fmt xs e)
   \<and> position (run fmt xs e) \<le> int (length (flat e))"
proof (induction xs arbitrary: e)
  case Nil
  then show ?case by simp
next
  case (Cons x xs)
  from exec_keeps_bounds[OF Cons.prems, of fmt x]
  have a: "flat (exec fmt x e) = flat e" and b: "0 \<le> position (exec fmt x e)"
    and c: "position (exec fmt x e) \<le> int (length (flat (exec fmt x e)))" by simp_all
  from Cons.IH[OF b c] a show ?case by simp
qed

lemma calls_never_raise:
  "0 \<le> position e \<Longrightarrow> position e \<le> int (length (flat e)) \<Longrightarrow>
   \<not> isl (fst (step e)) \<and> \<not> isl (fst (step_back e)) \<and> \<not> isl (fst (jump k e)) \<and> \<not> isl (peek e)
   \<and> \<not> isl (current_span_events e)"
  by (auto simp: step_def step_back_def jump_def peek_def current_span_events_def has_next_def
        has_prev_def py_index_def Let_def)

text \<open>
  C10. Whatever sequence of calls follows the construction of the engine, the cursor stays in
  \<open>[0, total_steps]\<close> and the tape is the one built at construction; \<open>peek\<close>, \<open>search\<close> and
  \<open>current_span_events\<close> assign nothing, so the position after them is the position before.
\<close>

theorem position_within_tape:
  "0 \<le> position (run fmt xs (ReplayEngine t))
   \<and> position (run fmt xs (ReplayEngine t)) \<le> int (total_steps (run fmt xs (ReplayEngine t)))
   \<and> flat (run fmt xs (ReplayEngine t)) = flat (ReplayEngine t)
   \<and> position (exec fmt Peek e) = position e
   \<and> position (exec fmt (Search q) e) = position e
   \<and> position (exec fmt CurrentSpanEvents e) = position e"
proof -
  have "0 \<le> position (ReplayEngine t)" "position (ReplayEngine t) \<le> int (length (flat (ReplayEngine t)))"
    by (simp_all add: ReplayEngine_def)
  from run_keeps_bounds[OF this, of fmt xs] show ?thesis
    by (simp add: total_steps_def)
qed

lemma current_span_events_at_end:
  "position e \<ge> int (length (flat e)) \<Longrightarrow> current_span_events e = Inr []"
  by (simp add: current_span_events_def)

lemma current_span_events_in_range:
  "0 \<le> position e \<Longrightarrow> position e < int (length (flat e)) \<Longrightarrow>
   current_span_events e
     = Inr (filter (\<lambda>p. span_id (fst p) = span_id (fst (flat e ! nat (position e)))) (flat e))"
  by (auto simp: current_span_events_def py_index_def Let_def min_def)

lemma ex_after_three_steps:
  "snd (step_n 3 (ReplayEngine ex_trace)) = (ReplayEngine ex_trace)\<lparr>position := 3\<rparr>"
  using step_n_from [of "ReplayEngine ex_trace" 0 3]
  by (simp add: ex_pos ex_flat_eng del: step_n.simps)

text \<open>
  C8. The source computes the current span through \<open>min(position, len - 1)\<close>, the clamp to the
  last valid entry, but the guard before it returns the empty list as soon as the position has
  reached the length. After the three steps over the three entries of the recorded trace the
  tape is not empty and \<open>current_span_events\<close> returns the empty list.
\<close>

theorem current_span_events_at_end_is_empty:
  "position (snd (step_n 3 (ReplayEngine ex_trace))) = 3
   \<and> flat (snd (step_n 3 (ReplayEngine ex_trace)))
       = [(ex_s1, ex_e1), (ex_s2, ex_e2), (ex_s1, ex_e3)]
   \<and> current_span_events (snd (step_n 3 (ReplayEngine ex_trace))) = Inr []"
  by (simp add: ex_after_three_steps ex_flat_eng current_span_events_def del: step_n.simps)

section \<open>Properties of search\<close>

lemma filter_enumerate_index:
  "map fst (filter (\<lambda>ip. P (fst ip) (snd ip)) (enumerate n xs))
     = filter (\<lambda>i. P i (xs ! (i - n))) [n..<n + length xs]"
proof (induction xs arbitrary: n)
  case Nil
  then show ?case by simp
next
  case (Cons x xs)
  have e: "[n..<n + length (x # xs)] = n # [Suc n..<Suc n + length xs]"
    by (simp add: upt_conv_Cons del: upt_Suc)
  have c: "filter (\<lambda>i. P i ((x # xs) ! (i - n))) [Suc n..<Suc n + length xs]
        = filter (\<lambda>i. P i (xs ! (i - Suc n))) [Suc n..<Suc n + length xs]"
    by (rule filter_cong) (auto simp: nth_Cons')
  have "map fst (filter (\<lambda>ip. P (fst ip) (snd ip)) (enumerate n (x # xs)))
        = (if P n x then [n] else [])
          @ map fst (filter (\<lambda>ip. P (fst ip) (snd ip)) (enumerate (Suc n) xs))"
    by simp
  also have "\<dots> = (if P n x then [n] else [])
                  @ filter (\<lambda>i. P i (xs ! (i - Suc n))) [Suc n..<Suc n + length xs]"
    by (simp only: Cons.IH)
  also have "\<dots> = (if P n x then [n] else [])
                  @ filter (\<lambda>i. P i ((x # xs) ! (i - n))) [Suc n..<Suc n + length xs]"
    by (simp only: c)
  also have "\<dots> = filter (\<lambda>i. P i ((x # xs) ! (i - n))) (n # [Suc n..<Suc n + length xs])"
    by simp
  finally show ?case by (simp only: e)
qed

lemma sublist_mid: "sublist q b \<Longrightarrow> sublist q (a @ b @ c)"
  by (auto simp: sublist_def) (metis append.assoc)

lemma search_indices:
  "search str_lower printed q e
     = filter (\<lambda>i. sublist (str_lower q) (str_lower (searchable (printed i) (flat e ! i))))
         [0..<length (flat e)]"
  using filter_enumerate_index
    [of "\<lambda>i p. sublist (str_lower q) (str_lower (searchable (printed i) p))" 0 "flat e"]
  by (simp add: search_def)

lemma field_match_joined:
  assumes "sublist q a \<or> sublist q b \<or> sublist q c"
  shows "sublist q (a @ '' '' @ b @ '' '' @ c)"
proof -
  from assms consider "sublist q a" | "sublist q b" | "sublist q c" by blast
  then show ?thesis
  proof cases
    case 1
    then have "sublist q ([] @ a @ ('' '' @ b @ '' '' @ c))" by (rule sublist_mid)
    then show ?thesis by simp
  next
    case 2
    then have "sublist q ((a @ '' '') @ b @ ('' '' @ c))" by (rule sublist_mid)
    then show ?thesis by simp
  next
    case 3
    then have "sublist q ((a @ '' '' @ b @ '' '') @ c @ [])" by (rule sublist_mid)
    then show ?thesis by simp
  qed
qed

lemma ex_log_flat: "flat (ReplayEngine ex_log_trace) = [(ex_log_span, ex_log_event)]"
  by (simp add: ReplayEngine_def build_flat_list_def span_pairs_def ex_log_trace_def
      ex_log_span_def sort_key_def)

lemma ex_log_fields:
  "span_name ex_log_span = ''plan''" "event_type ex_log_event = LOG" "data ex_log_event = []"
  by (simp_all add: ex_log_span_def ex_log_event_def)

lemma ex_log_searchable:
  "searchable ''{}'' (ex_log_span, ex_log_event) = ''plan log {}''"
  by (simp add: searchable_def ex_log_fields)

lemma ex_sublists:
  "sublist (ascii_lower ''N L'') (ascii_lower ''plan log {}'')"
  "\<not> sublist (ascii_lower ''N L'') (ascii_lower ''plan'')"
  "\<not> sublist (ascii_lower ''N L'') (ascii_lower ''log'')"
  "\<not> sublist (ascii_lower ''N L'') (ascii_lower ''{}'')"
  "sublist (ascii_lower ''PLAN'') (ascii_lower ''plan'')"
  "sublist (ascii_lower ''PLAN'') (ascii_lower ''plan log {}'')"
  by code_simp+

lemma ascii_lower_joined:
  "ascii_lower (a @ '' '' @ b @ '' '' @ c)
     = ascii_lower a @ '' '' @ ascii_lower b @ '' '' @ ascii_lower c"
  by (simp add: ascii_lower_def ascii_lower_char_def)

text \<open>
  C9, as stated, fails. The source joins the span name, the type label and the printed payload
  with single spaces and looks for the query in the joined text. For the span \<open>plan\<close> with one
  \<open>log\<close> event of empty payload (which Python prints as \<open>{}\<close>) the query \<open>N L\<close> is found at
  index 0, across the boundary of the first two fields, and occurs in none of the three.
\<close>

theorem search_matches_across_fields:
  "search ascii_lower (\<lambda>i. ''{}'') ''N L'' (ReplayEngine ex_log_trace) = [0]
   \<and> \<not> sublist (ascii_lower ''N L'')
         (ascii_lower (span_name (fst (flat (ReplayEngine ex_log_trace) ! 0))))
   \<and> \<not> sublist (ascii_lower ''N L'')
         (ascii_lower (EventType_value (event_type (snd (flat (ReplayEngine ex_log_trace) ! 0)))))
   \<and> \<not> sublist (ascii_lower ''N L'') (ascii_lower ((\<lambda>i. ''{}'') (0::nat)))
   \<and> data (snd (flat (ReplayEngine ex_log_trace) ! 0)) = []"
  by (simp add: search_indices ex_log_flat ex_log_searchable ex_log_fields ex_sublists)

text \<open>
  C9, amended. Whatever \<open>str.lower\<close> and the printing of payloads do, \<open>search\<close> returns, in
  increasing order, exactly the tape indices at which the lower-cased query is a substring of
  the lower-cased joined text. Where lower-casing the joined text lower-cases its three fields
  and keeps the two spaces between them, every index at which one of the three fields
  contains the query, case-insensitively, is therefore returned.
\<close>

theorem search_joined_text:
  "search str_lower printed q e
     = filter (\<lambda>i. sublist (str_lower q) (str_lower (searchable (printed i) (flat e ! i))))
         [0..<length (flat e)]
   \<and> sorted (search str_lower printed q e) \<and> distinct (search str_lower printed q e)
   \<and> (i < length (flat e)
        \<and> str_lower (searchable (printed i) (flat e ! i))
            = str_lower (span_name (fst (flat e ! i))) @ '' ''
              @ str_lower (EventType_value (event_type (snd (flat e ! i)))) @ '' ''
              @ str_lower (printed i)
        \<and> (sublist (str_lower q) (str_lower (span_name (fst (flat e ! i))))
           \<or> sublist (str_lower q) (str_lower (EventType_value (event_type (snd (flat e ! i)))))
           \<or> sublist (str_lower q) (str_lower (printed i)))
       \<longrightarrow> i \<in> set (search str_lower printed q e))"
proof (intro conjI impI)
  show "search str_lower printed q e
     = filter (\<lambda>i. sublist (str_lower q) (str_lower (searchable (printed i) (flat e ! i))))
         [0..<length (flat e)]"
    by (rule search_indices)
  show "sorted (search str_lower printed q e)"
    unfolding search_indices by (rule sorted_wrt_filter) simp
  show "distinct (search str_lower printed q e)"
    unfolding search_indices by simp
next
  assume a: "i < length (flat e)
        \<and> str_lower (searchable (printed i) (flat e ! i))
            = str_lower (span_name (fst (flat e ! i))) @ '' ''
              @ str_lower (EventType_value (event_type (snd (flat e ! i)))) @ '' ''
              @ str_lower (printed i)
        \<and> (sublist (str_lower q) (str_lower (span_name (fst (flat e ! i))))
           \<or> sublist (str_lower q) (str_lower (EventType_value (event_type (snd (flat e ! i)))))
           \<or> sublist (str_lower q) (str_lower (printed i)))"
  then have "sublist (str_lower q)
      (str_lower (span_name (fst (flat e ! i))) @ '' ''
       @ str_lower (EventType_value (event_type (snd (flat e ! i)))) @ '' ''
       @ str_lower (printed i))"
    by (intro field_match_joined) simp
  with a have "sublist (str_lower q) (str_lower (searchable (printed i) (flat e ! i)))"
    by simp
  with a show "i \<in> set (search str_lower printed q e)"
    unfolding search_indices by simp
qed

theorem search_joined_text_witness:
  "search ascii_lower (\<lambda>i. ''{}'') ''PLAN'' (ReplayEngine ex_log_trace) = [0]
   \<and> ascii_lower (searchable ''{}'' (flat (ReplayEngine ex_log_trace) ! 0))
       = ascii_lower ''plan'' @ '' '' @ ascii_lower ''log'' @ '' '' @ ascii_lower ''{}''
   \<and> sublist (ascii_lower ''PLAN'')
        (ascii_lower (span_name (fst (flat (ReplayEngine ex_log_trace) ! 0))))
   \<and> 0 \<in> set (search ascii_lower (\<lambda>i. ''{}'') ''PLAN'' (ReplayEngine ex_log_trace))"
proof -
  let ?e = "ReplayEngine ex_log_trace"
  have r: "search ascii_lower (\<lambda>i. ''{}'') ''PLAN'' ?e = [0]"
    by (simp add: search_indices ex_log_flat ex_log_searchable ex_sublists)
  have j: "ascii_lower (searchable ''{}'' (flat ?e ! 0))
       = ascii_lower (span_name (fst (flat ?e ! 0))) @ '' ''
         @ ascii_lower (EventType_value (event_type (snd (flat ?e ! 0)))) @ '' ''
         @ ascii_lower ''{}''"
    unfolding searchable_def by (rule ascii_lower_joined)
  have f: "span_name (fst (flat ?e ! 0)) = ''plan''"
    "EventType_value (event_type (snd (flat ?e ! 0))) = ''log''"
    by (simp_all add: ex_log_flat ex_log_fields)
  have m: "sublist (ascii_lower ''PLAN'') (ascii_lower (span_name (fst (flat ?e ! 0))))"
    by (simp add: f ex_sublists)
  have n: "0 < length (flat ?e)"
    by (simp add: ex_log_flat)
  have "0 \<in> set (search ascii_lower (\<lambda>i. ''{}'') ''PLAN'' ?e)"
    by (rule search_joined_text [of ascii_lower "\<lambda>i. ''{}''" "''PLAN''" ?e 0,
          THEN conjunct2, THEN conjunct2, THEN conjunct2, THEN mp])
       (intro conjI disjI1 n j m)
  with r j [unfolded f] m show ?thesis by blast
qed

section \<open>Properties of diff_traces\<close>

lemma diff_loop_all_ok:
  "(\<And>i. i \<in> set js \<Longrightarrow> body i = Inr (g i)) \<Longrightarrow>
   diff_loop body js acc = Inr (acc @ concat (map g js))"
  by (induction js arbitrary: acc) simp_all

lemma diff_at_never_raises:
  "i < max (length events_a) (length events_b) \<Longrightarrow>
   \<not> isl (diff_at str_json ta tb events_a events_b i)"
  by (auto simp: diff_at_def nth_or_none_def)

lemma diff_traces_divergences:
  "diff_traces str_json str_int ta tb =
     Inr \<lparr>trace_a_id = trace_id ta, trace_b_id = trace_id tb,
          divergences =
            concat (map (\<lambda>i. projr (diff_at str_json ta tb (all_events ta) (all_events tb) i))
                        [0..<max (length (all_events ta)) (length (all_events tb))]),
          summary = make_summary str_int
            (concat (map (\<lambda>i. projr (diff_at str_json ta tb (all_events ta) (all_events tb) i))
                        [0..<max (length (all_events ta)) (length (all_events tb))]))\<rparr>"
proof -
  have "diff_loop (diff_at str_json ta tb (all_events ta) (all_events tb))
          [0..<max (length (all_events ta)) (length (all_events tb))] []
        = Inr ([] @ concat (map (\<lambda>i. projr (diff_at str_json ta tb (all_events ta) (all_events tb) i))
                        [0..<max (length (all_events ta)) (length (all_events tb))]))"
    by (rule diff_loop_all_ok) (simp add: diff_at_never_raises sum.collapse(2))
  then show ?thesis by (simp add: diff_traces_def Let_def)
qed

lemma py_ne_same: "\<not> py_ne v v"
  by (simp add: py_ne_def py_eq_def)

lemma compare_payload_same: "compare_payload str_json ta tb i e e = []"
  by (simp add: compare_payload_def py_ne_same)

lemma diff_at_same:
  "i < length evs \<Longrightarrow> i < length evs' \<Longrightarrow> evs ! i = evs' ! i \<Longrightarrow>
   diff_at str_json ta tb evs evs' i = Inr []"
  by (simp add: diff_at_def nth_or_none_def compare_payload_same)

lemma concat_all_empty: "(\<And>x. x \<in> set xs \<Longrightarrow> f x = []) \<Longrightarrow> concat (map f xs) = []"
  by (induction xs) simp_all

lemma concat_single_index:
  assumes "k < n" "f k = [d]" "\<And>i. i < n \<Longrightarrow> i \<noteq> k \<Longrightarrow> f i = []"
  shows "concat (map f [0..<n]) = [d]"
proof -
  have "[0..<k + (n - k)] = [0..<k] @ [k..<k + (n - k)]"
    by (rule upt_add_eq_append) simp
  moreover have "[k..<n] = k # [Suc k..<n]"
    using assms(1) by (rule upt_conv_Cons)
  ultimately have sp: "[0..<n] = [0..<k] @ k # [Suc k..<n]"
    using assms(1) by simp
  have a: "concat (map f [0..<k]) = []"
    by (rule concat_all_empty) (use assms in auto)
  have b: "concat (map f [Suc k..<n]) = []"
    by (rule concat_all_empty) (use assms in auto)
  show ?thesis unfolding sp by (simp only: map_append concat_append list.map concat.simps a b assms(2) append_Nil append_Nil2)
qed

lemma diff_self_divergences:
  "concat (map (\<lambda>i. projr (diff_at str_json t t (all_events t) (all_events t) i))
             [0..<max (length (all_events t)) (length (all_events t))]) = []"
  by (rule concat_all_empty) (simp add: diff_at_same)

lemma event_count_zero:
  assumes "event_count t = 0"
  shows "all_events t = []"
proof -
  have h: "concat (map events (spans t)) = []"
    using assms by (auto simp: event_count_def)
  show ?thesis unfolding all_events_def h by simp
qed

lemma ex_all_events: "all_events ex_trace = [ex_e1, ex_e2, ex_e3]"
  by (simp add: all_events_def ex_trace_def ex_s1_def ex_s2_def sort_key_def ex_e1_def ex_e2_def ex_e3_def)

lemma ex_all_events_extra: "all_events ex_trace_extra = [ex_e1, ex_e2, ex_e3, ex_e4]"
  by (simp add: all_events_def ex_trace_extra_def ex_trace_def ex_s1_def ex_s2_def sort_key_def
      ex_e1_def ex_e2_def ex_e3_def ex_e4_def)

lemma ex_all_events_browse: "all_events ex_trace_browse = [ex_e1, ex_e2, ex_e3_browse]"
  by (simp add: all_events_def ex_trace_browse_def ex_trace_def ex_s1_def ex_s2_def sort_key_def
      ex_e1_def ex_e2_def ex_e3_browse_def)

lemma ex_all_events_no_tool: "all_events ex_trace_no_tool = [ex_e1, ex_e2, ex_e3_no_tool]"
  by (simp add: all_events_def ex_trace_no_tool_def ex_trace_def ex_s1_def ex_s2_def sort_key_def
      ex_e1_def ex_e2_def ex_e3_no_tool_def)

text \<open>
  C4. Comparing a trace with itself succeeds with \<open>identical\<close>; \<open>identical\<close> holds exactly when
  the list of divergences is empty; two traces without events compare as identical, with no
  divergence.
\<close>

theorem diff_identity:
  "(\<exists>r. diff_traces str_json str_int t t = Inr r \<and> identical r)
   \<and> identical r = (divergences r = [])
   \<and> (event_count ta = 0 \<and> event_count tb = 0 \<longrightarrow>
        (\<exists>r. diff_traces str_json str_int ta tb = Inr r \<and> identical r \<and> divergences r = []))"
proof (intro conjI impI)
  show "\<exists>r. diff_traces str_json str_int t t = Inr r \<and> identical r"
    by (simp add: diff_traces_divergences identical_def diff_at_same)
  show "identical r = (divergences r = [])"
    by (simp add: identical_def)
  assume "event_count ta = 0 \<and> event_count tb = 0"
  then have "all_events ta = []" "all_events tb = []"
    by (simp_all add: event_count_zero)
  then show "\<exists>r. diff_traces str_json str_int ta tb = Inr r \<and> identical r \<and> divergences r = []"
    by (simp add: diff_traces_divergences identical_def)
qed

theorem diff_identity_witness:
  "event_count ex_empty = 0 \<and> event_count ex_no_events = 0
   \<and> (\<exists>r. diff_traces (\<lambda>v. []) (\<lambda>n. []) ex_empty ex_no_events = Inr r
          \<and> identical r \<and> divergences r = [])"
  using diff_identity [of "\<lambda>v. []" "\<lambda>n. []" ex_empty
      "\<lparr>trace_a_id = [], trace_b_id = [], divergences = [], summary = []\<rparr>" ex_empty ex_no_events]
  by (simp add: event_count_def ex_empty_def ex_no_events_def new_trace_def add_span_def)

lemma diff_extra_b:
  assumes "all_events tb = all_events ta @ [x]"
  shows "concat (map (\<lambda>i. projr (diff_at str_json ta tb (all_events ta) (all_events tb) i))
             [0..<max (length (all_events ta)) (length (all_events tb))])
         = [\<lparr>div_position = length (all_events ta),
             description = ''Trace B has extra event: '' @ EventType_value (event_type x),
             trace_a_event = None, trace_b_event = Some x,
             trace_a_span = [], trace_b_span = span_for_event tb x, severity = ''warning''\<rparr>]"
proof -
  let ?n = "length (all_events ta)"
  have m: "max ?n (length (all_events tb)) = Suc ?n" using assms by simp
  show ?thesis unfolding m
  proof (rule concat_single_index)
    show "?n < Suc ?n" by simp
    show "projr (diff_at str_json ta tb (all_events ta) (all_events tb) ?n)
          = [\<lparr>div_position = ?n,
             description = ''Trace B has extra event: '' @ EventType_value (event_type x),
             trace_a_event = None, trace_b_event = Some x,
             trace_a_span = [], trace_b_span = span_for_event tb x, severity = ''warning''\<rparr>]"
      by (simp add: diff_at_def nth_or_none_def assms)
    fix i assume "i < Suc ?n" "i \<noteq> ?n"
    then have "i < ?n" by simp
    then show "projr (diff_at str_json ta tb (all_events ta) (all_events tb) i) = []"
      by (simp add: diff_at_same assms nth_append)
  qed
qed

lemma diff_extra_a:
  assumes "all_events ta = all_events tb @ [x]"
  shows "concat (map (\<lambda>i. projr (diff_at str_json ta tb (all_events ta) (all_events tb) i))
             [0..<max (length (all_events ta)) (length (all_events tb))])
         = [\<lparr>div_position = length (all_events tb),
             description = ''Trace A has extra event: '' @ EventType_value (event_type x),
             trace_a_event = Some x, trace_b_event = None,
             trace_a_span = span_for_event ta x, trace_b_span = [], severity = ''warning''\<rparr>]"
proof -
  let ?n = "length (all_events tb)"
  have m: "max (length (all_events ta)) ?n = Suc ?n" using assms by simp
  show ?thesis unfolding m
  proof (rule concat_single_index)
    show "?n < Suc ?n" by simp
    show "projr (diff_at str_json ta tb (all_events ta) (all_events tb) ?n)
          = [\<lparr>div_position = ?n,
             description = ''Trace A has extra event: '' @ EventType_value (event_type x),
             trace_a_event = Some x, trace_b_event = None,
             trace_a_span = span_for_event ta x, trace_b_span = [], severity = ''warning''\<rparr>]"
      by (simp add: diff_at_def nth_or_none_def assms)
    fix i assume "i < Suc ?n" "i \<noteq> ?n"
    then have "i < ?n" by simp
    then show "projr (diff_at str_json ta tb (all_events ta) (all_events tb) i) = []"
      by (simp add: diff_at_same assms nth_append)
  qed
qed

lemma set_all_events: "set (all_events t) = (\<Union>s\<in>set (spans t). set (events s))"
  by (simp add: all_events_def)

lemma span_for_event_first:
  assumes "x \<in> set (all_events t)"
  shows "\<exists>i<length (spans t).
           span_for_event t x = span_name (spans t ! i)
           \<and> list_ex (\<lambda>e. event_id e = event_id x) (events (spans t ! i))
           \<and> \<not> list_ex (\<lambda>s. list_ex (\<lambda>e. event_id e = event_id x) (events s)) (take i (spans t))
           \<and> (distinct (map event_id (all_events t)) \<longrightarrow> x \<in> set (events (spans t ! i)))"
proof -
  let ?P = "\<lambda>s. list_ex (\<lambda>e. event_id e = event_id x) (events s)"
  from assms obtain s0 where s0: "s0 \<in> set (spans t)" "x \<in> set (events s0)"
    by (auto simp: set_all_events)
  then have "?P s0" by (auto simp: list_ex_iff)
  with s0 have "find ?P (spans t) \<noteq> None" by (auto simp: find_None_iff)
  then obtain s where fs: "find ?P (spans t) = Some s" by blast
  then obtain i where i: "i < length (spans t)" "?P (spans t ! i)" "s = spans t ! i"
    "\<forall>j<i. \<not> ?P (spans t ! j)"
    by (auto simp: find_Some_iff)
  have nm: "span_for_event t x = span_name (spans t ! i)"
    using fs i(3) by (simp add: span_for_event_def)
  have earlier: "\<not> list_ex ?P (take i (spans t))"
  proof
    assume "list_ex ?P (take i (spans t))"
    then obtain s' where s': "s' \<in> set (take i (spans t))" "?P s'"
      unfolding list_ex_iff [of ?P] by blast
    from s'(1) obtain j where "j < length (take i (spans t))" "s' = take i (spans t) ! j"
      unfolding in_set_conv_nth by blast
    with i(1) have "j < i" "s' = spans t ! j" by simp_all
    with i(4) s'(2) show False by blast
  qed
  have own: "x \<in> set (events (spans t ! i))" if d: "distinct (map event_id (all_events t))"
  proof -
    from i(2) obtain e where e: "e \<in> set (events (spans t ! i))" "event_id e = event_id x"
      by (auto simp: list_ex_iff)
    have "e \<in> set (all_events t)"
      using e(1) i(1) by (auto simp: set_all_events)
    moreover have "inj_on event_id (set (all_events t))"
      using d by (simp add: distinct_map)
    ultimately have "e = x" using assms e(2) by (auto dest: inj_onD)
    with e(1) show ?thesis by simp
  qed
  from i(1) nm i(2) earlier own show ?thesis by blast
qed

text \<open>
  C5. When the canonical sequence of B is that of A followed by one more event, the result has
  exactly one divergence: a warning at the index of the extra event, with the event of side B
  only and, as its span, the name of the first span of B that holds an event with the extra
  event's identifier. Where the events of B have distinct identifiers, that span is the one
  holding the extra event. The same holds with A and B exchanged.
\<close>

theorem diff_extra_trailing_event:
  "(all_events tb = all_events ta @ [x] \<longrightarrow>
      (\<exists>r i. diff_traces str_json str_int ta tb = Inr r
          \<and> i < length (spans tb)
          \<and> divergences r =
              [\<lparr>div_position = length (all_events ta),
                description = ''Trace B has extra event: '' @ EventType_value (event_type x),
                trace_a_event = None, trace_b_event = Some x,
                trace_a_span = [], trace_b_span = span_name (spans tb ! i),
                severity = ''warning''\<rparr>]
          \<and> list_ex (\<lambda>e. event_id e = event_id x) (events (spans tb ! i))
          \<and> \<not> list_ex (\<lambda>s. list_ex (\<lambda>e. event_id e = event_id x) (events s))
                (take i (spans tb))
          \<and> (distinct (map event_id (all_events tb)) \<longrightarrow> x \<in> set (events (spans tb ! i)))))
   \<and> (all_events ta' = all_events tb' @ [y] \<longrightarrow>
      (\<exists>r i. diff_traces str_json str_int ta' tb' = Inr r
          \<and> i < length (spans ta')
          \<and> divergences r =
              [\<lparr>div_position = length (all_events tb'),
                description = ''Trace A has extra event: '' @ EventType_value (event_type y),
                trace_a_event = Some y, trace_b_event = None,
                trace_a_span = span_name (spans ta' ! i), trace_b_span = [],
                severity = ''warning''\<rparr>]
          \<and> list_ex (\<lambda>e. event_id e = event_id y) (events (spans ta' ! i))
          \<and> \<not> list_ex (\<lambda>s. list_ex (\<lambda>e. event_id e = event_id y) (events s))
                (take i (spans ta'))
          \<and> (distinct (map event_id (all_events ta')) \<longrightarrow> y \<in> set (events (spans ta' ! i)))))"
proof (intro conjI impI)
  assume h: "all_events tb = all_events ta @ [x]"
  then have "x \<in> set (all_events tb)" by simp
  from span_for_event_first [OF this] obtain i where i: "i < length (spans tb)"
    "span_for_event tb x = span_name (spans tb ! i)"
    "list_ex (\<lambda>e. event_id e = event_id x) (events (spans tb ! i))"
    "\<not> list_ex (\<lambda>s. list_ex (\<lambda>e. event_id e = event_id x) (events s)) (take i (spans tb))"
    "distinct (map event_id (all_events tb)) \<longrightarrow> x \<in> set (events (spans tb ! i))"
    by blast
  have "diff_traces str_json str_int ta tb
        = Inr \<lparr>trace_a_id = trace_id ta, trace_b_id = trace_id tb,
            divergences = [\<lparr>div_position = length (all_events ta),
                description = ''Trace B has extra event: '' @ EventType_value (event_type x),
                trace_a_event = None, trace_b_event = Some x,
                trace_a_span = [], trace_b_span = span_name (spans tb ! i),
                severity = ''warning''\<rparr>],
            summary = make_summary str_int [\<lparr>div_position = length (all_events ta),
                description = ''Trace B has extra event: '' @ EventType_value (event_type x),
                trace_a_event = None, trace_b_event = Some x,
                trace_a_span = [], trace_b_span = span_name (spans tb ! i),
                severity = ''warning''\<rparr>]\<rparr>"
    unfolding diff_traces_divergences diff_extra_b[OF h] i(2) ..
  with i show "\<exists>r i. diff_traces str_json str_int ta tb = Inr r
          \<and> i < length (spans tb)
          \<and> divergences r =
              [\<lparr>div_position = length (all_events ta),
                description = ''Trace B has extra event: '' @ EventType_value (event_type x),
                trace_a_event = None, trace_b_event = Some x,
                trace_a_span = [], trace_b_span = span_name (spans tb ! i),
                severity = ''warning''\<rparr>]
          \<and> list_ex (\<lambda>e. event_id e = event_id x) (events (spans tb ! i))
          \<and> \<not> list_ex (\<lambda>s. list_ex (\<lambda>e. event_id e = event_id x) (events s))
                (take i (spans tb))
          \<and> (distinct (map event_id (all_events tb)) \<longrightarrow> x \<in> set (events (spans tb ! i)))"
    by (intro exI [of _ i] exI [of _ "\<lparr>trace_a_id = trace_id ta, trace_b_id = trace_id tb,
            divergences = [\<lparr>div_position = length (all_events ta),
                description = ''Trace B has extra event: '' @ EventType_value (event_type x),
                trace_a_event = None, trace_b_event = Some x,
                trace_a_span = [], trace_b_span = span_name (spans tb ! i),
                severity = ''warning''\<rparr>],
            summary = make_summary str_int [\<lparr>div_position = length (all_events ta),
                description = ''Trace B has extra event: '' @ EventType_value (event_type x),
                trace_a_event = None, trace_b_event = Some x,
                trace_a_span = [], trace_b_span = span_name (spans tb ! i),
                severity = ''warning''\<rparr>]\<rparr>"]) simp
next
  assume h: "all_events ta' = all_events tb' @ [y]"
  then have "y \<in> set (all_events ta')" by simp
  from span_for_event_first [OF this] obtain i where i: "i < length (spans ta')"
    "span_for_event ta' y = span_name (spans ta' ! i)"
    "list_ex (\<lambda>e. event_id e = event_id y) (events (spans ta' ! i))"
    "\<not> list_ex (\<lambda>s. list_ex (\<lambda>e. event_id e = event_id y) (events s)) (take i (spans ta'))"
    "distinct (map event_id (all_events ta')) \<longrightarrow> y \<in> set (events (spans ta' ! i))"
    by blast
  have "diff_traces str_json str_int ta' tb'
        = Inr \<lparr>trace_a_id = trace_id ta', trace_b_id = trace_id tb',
            divergences = [\<lparr>div_position = length (all_events tb'),
                description = ''Trace A has extra event: '' @ EventType_value (event_type y),
                trace_a_event = Some y, trace_b_event = None,
                trace_a_span = span_name (spans ta' ! i), trace_b_span = [],
                severity = ''warning''\<rparr>],
            summary = make_summary str_int [\<lparr>div_position = length (all_events tb'),
                description = ''Trace A has extra event: '' @ EventType_value (event_type y),
                trace_a_event = Some y, trace_b_event = None,
                trace_a_span = span_name (spans ta' ! i), trace_b_span = [],
                severity = ''warning''\<rparr>]\<rparr>"
    unfolding diff_traces_divergences diff_extra_a[OF h] i(2) ..
  with i show "\<exists>r i. diff_traces str_json str_int ta' tb' = Inr r
          \<and> i < length (spans ta')
          \<and> divergences r =
              [\<lparr>div_position = length (all_events tb'),
                description = ''Trace A has extra event: '' @ EventType_value (event_type y),
                trace_a_event = Some y, trace_b_event = None,
                trace_a_span = span_name (spans ta' ! i), trace_b_span = [],
                severity = ''warning''\<rparr>]
          \<and> list_ex (\<lambda>e. event_id e = event_id y) (events (spans ta' ! i))
          \<and> \<not> list_ex (\<lambda>s. list_ex (\<lambda>e. event_id e = event_id y) (events s))
                (take i (spans ta'))
          \<and> (distinct (map event_id (all_events ta')) \<longrightarrow> y \<in> set (events (spans ta' ! i)))"
    by (intro exI [of _ i] exI [of _ "\<lparr>trace_a_id = trace_id ta', trace_b_id = trace_id tb',
            divergences = [\<lparr>div_position = length (all_events tb'),
                description = ''Trace A has extra event: '' @ EventType_value (event_type y),
                trace_a_event = Some y, trace_b_event = None,
                trace_a_span = span_name (spans ta' ! i), trace_b_span = [],
                severity = ''warning''\<rparr>],
            summary = make_summary str_int [\<lparr>div_position = length (all_events tb'),
                description = ''Trace A has extra event: '' @ EventType_value (event_type y),
                trace_a_event = Some y, trace_b_event = None,
                trace_a_span = span_name (spans ta' ! i), trace_b_span = [],
                severity = ''warning''\<rparr>]\<rparr>"]) simp
qed

lemma ex_extra_spans:
  "length (spans ex_trace_extra) = 2"
  "events (spans ex_trace_extra ! 0) = [ex_e1, ex_e3]"
  "events (spans ex_trace_extra ! Suc 0) = [ex_e2, ex_e4]"
  "span_name (spans ex_trace_extra ! Suc 0) = ''act''"
  by (simp_all add: ex_trace_extra_def ex_trace_def ex_s1_def ex_s2_def)

lemma ex_e4_not_first: "ex_e4 \<notin> set (events (spans ex_trace_extra ! 0))"
  by (simp add: ex_extra_spans ex_e1_def ex_e3_def ex_e4_def)

lemma ex_extra_ids: "distinct (map event_id (all_events ex_trace_extra))"
  by (simp add: ex_all_events_extra ex_e1_def ex_e2_def ex_e3_def ex_e4_def)

theorem diff_extra_trailing_event_witness:
  "all_events ex_trace_extra = all_events ex_trace @ [ex_e4]
   \<and> distinct (map event_id (all_events ex_trace_extra))
   \<and> ex_e4 \<in> set (events (spans ex_trace_extra ! 1))
   \<and> (\<exists>r. diff_traces (\<lambda>v. []) (\<lambda>n. []) ex_trace ex_trace_extra = Inr r
          \<and> divergences r =
              [\<lparr>div_position = 3, description = ''Trace B has extra event: tool_result'',
                trace_a_event = None, trace_b_event = Some ex_e4,
                trace_a_span = [], trace_b_span = ''act'', severity = ''warning''\<rparr>])
   \<and> (\<exists>r. diff_traces (\<lambda>v. []) (\<lambda>n. []) ex_trace_extra ex_trace = Inr r
          \<and> divergences r =
              [\<lparr>div_position = 3, description = ''Trace A has extra event: tool_result'',
                trace_a_event = Some ex_e4, trace_b_event = None,
                trace_a_span = ''act'', trace_b_span = [], severity = ''warning''\<rparr>])"
proof -
  have h: "all_events ex_trace_extra = all_events ex_trace @ [ex_e4]"
    by (simp add: ex_all_events ex_all_events_extra)
  have n: "length (all_events ex_trace) = 3" "EventType_value (event_type ex_e4) = ''tool_result''"
    by (simp_all add: ex_all_events ex_e4_def)
  note th = diff_extra_trailing_event [of ex_trace_extra ex_trace ex_e4 "\<lambda>v. []" "\<lambda>n. []"
      ex_trace_extra ex_trace ex_e4]
  have one: "i = 1" if "i < length (spans ex_trace_extra)"
    "distinct (map event_id (all_events ex_trace_extra)) \<longrightarrow> ex_e4 \<in> set (events (spans ex_trace_extra ! i))"
    for i
  proof -
    from that(2) ex_extra_ids have "ex_e4 \<in> set (events (spans ex_trace_extra ! i))" by blast
    with ex_e4_not_first have "i \<noteq> 0" by (cases "i = 0") simp_all
    with that(1) show ?thesis by (simp add: ex_extra_spans)
  qed
  from th [THEN conjunct1, THEN mp, OF h] obtain r i where b:
    "diff_traces (\<lambda>v. []) (\<lambda>n. []) ex_trace ex_trace_extra = Inr r"
    "i < length (spans ex_trace_extra)"
    "divergences r =
              [\<lparr>div_position = length (all_events ex_trace),
                description = ''Trace B has extra event: '' @ EventType_value (event_type ex_e4),
                trace_a_event = None, trace_b_event = Some ex_e4,
                trace_a_span = [], trace_b_span = span_name (spans ex_trace_extra ! i),
                severity = ''warning''\<rparr>]"
    "distinct (map event_id (all_events ex_trace_extra)) \<longrightarrow> ex_e4 \<in> set (events (spans ex_trace_extra ! i))"
    by blast
  from one [OF b(2) b(4)] have bi: "i = 1" .
  from th [THEN conjunct2, THEN mp, OF h] obtain r' i' where a:
    "diff_traces (\<lambda>v. []) (\<lambda>n. []) ex_trace_extra ex_trace = Inr r'"
    "i' < length (spans ex_trace_extra)"
    "divergences r' =
              [\<lparr>div_position = length (all_events ex_trace),
                description = ''Trace A has extra event: '' @ EventType_value (event_type ex_e4),
                trace_a_event = Some ex_e4, trace_b_event = None,
                trace_a_span = span_name (spans ex_trace_extra ! i'), trace_b_span = [],
                severity = ''warning''\<rparr>]"
    "distinct (map event_id (all_events ex_trace_extra)) \<longrightarrow> ex_e4 \<in> set (events (spans ex_trace_extra ! i'))"
    by blast
  from one [OF a(2) a(4)] have ai: "i' = 1" .
  have own: "ex_e4 \<in> set (events (spans ex_trace_extra ! 1))"
    by (simp add: ex_extra_spans)
  show ?thesis
    using h ex_extra_ids own b(1) b(3) a(1) a(3)
    by (simp add: bi ai n ex_extra_spans)
qed

lemma diff_one_tool:
  assumes "k < length (all_events ta)"
    and "event_type (all_events ta ! k) = TOOL_CALL" and "event_type eb = TOOL_CALL"
    and "py_ne (dict_get (data (all_events ta ! k)) ''tool'') (dict_get (data eb) ''tool'')"
    and "all_events tb = (all_events ta)[k := eb]"
  shows "concat (map (\<lambda>i. projr (diff_at str_json ta tb (all_events ta) (all_events tb) i))
             [0..<max (length (all_events ta)) (length (all_events tb))])
         = [\<lparr>div_position = k,
             description = ''Different tool called: ''
                @ str_json (dict_get (data (all_events ta ! k)) ''tool'')
                @ '' vs '' @ str_json (dict_get (data eb) ''tool''),
             trace_a_event = Some (all_events ta ! k), trace_b_event = Some eb,
             trace_a_span = span_for_event ta (all_events ta ! k),
             trace_b_span = span_for_event tb eb, severity = ''critical''\<rparr>]"
proof -
  let ?n = "length (all_events ta)"
  have m: "max ?n (length (all_events tb)) = ?n" using assms(5) by simp
  show ?thesis unfolding m
  proof (rule concat_single_index)
    show "k < ?n" by (rule assms(1))
    show "projr (diff_at str_json ta tb (all_events ta) (all_events tb) k)
          = [\<lparr>div_position = k,
             description = ''Different tool called: ''
                @ str_json (dict_get (data (all_events ta ! k)) ''tool'')
                @ '' vs '' @ str_json (dict_get (data eb) ''tool''),
             trace_a_event = Some (all_events ta ! k), trace_b_event = Some eb,
             trace_a_span = span_for_event ta (all_events ta ! k),
             trace_b_span = span_for_event tb eb, severity = ''critical''\<rparr>]"
      using assms by (simp add: diff_at_def nth_or_none_def compare_payload_def)
    fix i assume "i < ?n" "i \<noteq> k"
    then show "projr (diff_at str_json ta tb (all_events ta) (all_events tb) i) = []"
      using assms(5) by (simp add: diff_at_same)
  qed
qed

text \<open>
  C6. When the canonical sequences differ in one position only, both events there are tool
  calls and their \<open>tool\<close> values differ for Python's \<open>!=\<close>, the result has exactly one
  divergence, it is critical and \<open>critical_count\<close> is 1. The comparison of two traces never
  raises, and a payload without the key \<open>tool\<close> is read as \<open>None\<close>.
\<close>

theorem diff_tool_call_critical:
  "(k < length (all_events ta)
    \<and> event_type (all_events ta ! k) = TOOL_CALL \<and> event_type eb = TOOL_CALL
    \<and> py_ne (dict_get (data (all_events ta ! k)) ''tool'') (dict_get (data eb) ''tool'')
    \<and> all_events tb = (all_events ta)[k := eb]
    \<longrightarrow> (\<exists>r. diff_traces str_json str_int ta tb = Inr r
            \<and> length (divergences r) = 1
            \<and> severity (hd (divergences r)) = ''critical''
            \<and> div_position (hd (divergences r)) = k
            \<and> critical_count r = 1))
   \<and> (\<exists>r. diff_traces str_json str_int ta' tb' = Inr r)
   \<and> (map_of d ''tool'' = None \<longrightarrow> dict_get d ''tool'' = JNull)"
proof (intro conjI impI)
  assume a: "k < length (all_events ta)
    \<and> event_type (all_events ta ! k) = TOOL_CALL \<and> event_type eb = TOOL_CALL
    \<and> py_ne (dict_get (data (all_events ta ! k)) ''tool'') (dict_get (data eb) ''tool'')
    \<and> all_events tb = (all_events ta)[k := eb]"
  have "concat (map (\<lambda>i. projr (diff_at str_json ta tb (all_events ta) (all_events tb) i))
             [0..<max (length (all_events ta)) (length (all_events tb))])
         = [\<lparr>div_position = k,
             description = ''Different tool called: ''
                @ str_json (dict_get (data (all_events ta ! k)) ''tool'')
                @ '' vs '' @ str_json (dict_get (data eb) ''tool''),
             trace_a_event = Some (all_events ta ! k), trace_b_event = Some eb,
             trace_a_span = span_for_event ta (all_events ta ! k),
             trace_b_span = span_for_event tb eb, severity = ''critical''\<rparr>]"
    by (rule diff_one_tool) (use a in simp_all)
  then show "\<exists>r. diff_traces str_json str_int ta tb = Inr r
            \<and> length (divergences r) = 1
            \<and> severity (hd (divergences r)) = ''critical''
            \<and> div_position (hd (divergences r)) = k
            \<and> critical_count r = 1"
    unfolding diff_traces_divergences by (simp add: critical_count_def)
next
  show "\<exists>r. diff_traces str_json str_int ta' tb' = Inr r"
    by (simp add: diff_traces_divergences)
next
  assume "map_of d ''tool'' = None"
  then show "dict_get d ''tool'' = JNull" by (simp add: dict_get_def)
qed

lemma ex_tool_differs:
  "py_ne (dict_get (data ex_e3) ''tool'') (dict_get (data ex_e3_browse) ''tool'')"
  "py_ne (dict_get (data ex_e3) ''tool'') (dict_get (data ex_e3_no_tool) ''tool'')"
  by (simp_all add: py_ne_def py_eq_def dict_get_def ex_e3_def ex_e3_browse_def ex_e3_no_tool_def)

theorem diff_tool_call_critical_witness:
  "py_ne (dict_get (data (all_events ex_trace ! 2)) ''tool'') (dict_get (data ex_e3_browse) ''tool'')
   \<and> all_events ex_trace_browse = (all_events ex_trace)[2 := ex_e3_browse]
   \<and> (\<exists>r. diff_traces (\<lambda>v. []) (\<lambda>n. []) ex_trace ex_trace_browse = Inr r
          \<and> length (divergences r) = 1 \<and> severity (hd (divergences r)) = ''critical''
          \<and> div_position (hd (divergences r)) = 2 \<and> critical_count r = 1)
   \<and> map_of (data ex_e3_no_tool) ''tool'' = None
   \<and> dict_get (data ex_e3_no_tool) ''tool'' = JNull
   \<and> (\<exists>r. diff_traces (\<lambda>v. []) (\<lambda>n. []) ex_trace ex_trace_no_tool = Inr r
          \<and> length (divergences r) = 1 \<and> severity (hd (divergences r)) = ''critical''
          \<and> div_position (hd (divergences r)) = 2 \<and> critical_count r = 1)"
  using diff_tool_call_critical [of 2 ex_trace ex_e3_browse ex_trace_browse "\<lambda>v. []" "\<lambda>n. []"
      ex_trace ex_trace "data ex_e3_no_tool"]
    diff_tool_call_critical [of 2 ex_trace ex_e3_no_tool ex_trace_no_tool "\<lambda>v. []" "\<lambda>n. []"
      ex_trace ex_trace "data ex_e3_no_tool"]
  by (simp add: ex_all_events ex_all_events_browse ex_all_events_no_tool ex_tool_differs)
     (simp add: ex_e3_def ex_e3_browse_def ex_e3_no_tool_def)

section \<open>Properties of save and load\<close>

lemma EventType_of_value: "EventType_of (JStr (EventType_value t)) = Some t"
  by (cases t) (simp_all add: EventType_of_def)

lemma Event_from_to_dict: "Event_from_dict fresh_id (JObj (Event_to_dict e)) = Returns e"
  by (simp add: Event_from_dict_def Event_to_dict_def EventType_of_value make_event_def
      dict_get_default_def)

lemma collect_events_roundtrip:
  "collect (map (\<lambda>(i, e). Event_from_dict (fresh_ids i) e)
             (enumerate n (map (\<lambda>e. JObj (Event_to_dict e)) evs))) = Returns evs"
  by (induction evs arbitrary: n) (simp_all add: Event_from_to_dict)

lemma span_dict_pop_type:
  "dict_pop ((''type'', JStr ''span'') # Span_to_dict s) ''type'' = Span_to_dict s"
  by (simp add: dict_pop_def Span_to_dict_def)

lemma as_opt_roundtrip [simp]:
  "as_opt_str (opt_str x) = Some x" "as_opt_num (opt_num y) = Some y"
  by (cases x; simp add: opt_str_def) (cases y; simp add: opt_num_def)

lemma Span_from_to_dict: "Span_from_dict fresh_ids (JObj (Span_to_dict s)) = Returns s"
proof -
  have m: "map_of (Span_to_dict s) ''name'' = Some (JStr (span_name s))"
    "map_of (Span_to_dict s) ''span_id'' = Some (JStr (span_id s))"
    "map_of (Span_to_dict s) ''start_time'' = Some (JNum (span_start_time s))"
    "dict_get_default (Span_to_dict s) ''events'' (JList [])
       = JList (map (\<lambda>e. JObj (Event_to_dict e)) (events s))"
    "dict_get (Span_to_dict s) ''parent_id'' = opt_str (parent_id s)"
    "dict_get (Span_to_dict s) ''end_time'' = opt_num (span_end_time s)"
    "dict_get_default (Span_to_dict s) ''metadata'' (JObj []) = JObj (span_metadata s)"
    by (simp_all add: Span_to_dict_def dict_get_def dict_get_default_def)
  show ?thesis
    by (simp add: Span_from_dict_def m collect_events_roundtrip make_span_def)
qed

lemma load_loop_spans:
  "load_loop fresh_ids (map (\<lambda>s. Json (JObj ((''type'', JStr ''span'') # Span_to_dict s))) sps)
     n header acc = Inr (header, acc @ map Some sps)"
  by (induction sps arbitrary: n acc) (simp_all add: span_dict_pop_type Span_from_to_dict)

lemma those_map_Some: "those (map Some xs) = Some xs"
  by (induction xs) simp_all

lemma load_save: "load fresh_trace_id fresh_ids (save t) = Returns t"
proof -
  let ?h = "[(''type'', JStr ''trace_header''), (''trace_id'', JStr (trace_id t)),
             (''name'', JStr (trace_name t)), (''start_time'', JNum (trace_start_time t)),
             (''end_time'', opt_num (trace_end_time t)), (''metadata'', JObj (trace_metadata t))]"
  have "load_loop fresh_ids (save t) 0 [] [] = Inr (?h, map Some (spans t))"
    by (simp add: save_def load_loop_spans)
  then show ?thesis
    by (simp add: load_def those_map_Some make_trace_def dict_get_def dict_get_default_def)
qed

text \<open>
  C2. For a trace built from a new trace by \<open>add_span\<close> and \<open>add_event\<close> calls and then
  closed, loading what \<open>save\<close> wrote returns a trace with the same \<open>trace_id\<close>, name and number
  of spans and, span by span, the same number of events, event types and payloads.
\<close>

theorem save_load_roundtrip:
  "case load fresh_trace_id fresh_ids
          (save (Trace_close now span_now (build (new_trace id0 t0 nm md) ops))) of
     Returns t' \<Rightarrow>
       trace_id t' = trace_id (Trace_close now span_now (build (new_trace id0 t0 nm md) ops))
       \<and> trace_name t' = trace_name (Trace_close now span_now (build (new_trace id0 t0 nm md) ops))
       \<and> length (spans t') = length (spans (Trace_close now span_now (build (new_trace id0 t0 nm md) ops)))
       \<and> map (\<lambda>s. length (events s)) (spans t')
           = map (\<lambda>s. length (events s)) (spans (Trace_close now span_now (build (new_trace id0 t0 nm md) ops)))
       \<and> map (\<lambda>s. map event_type (events s)) (spans t')
           = map (\<lambda>s. map event_type (events s)) (spans (Trace_close now span_now (build (new_trace id0 t0 nm md) ops)))
       \<and> map (\<lambda>s. map data (events s)) (spans t')
           = map (\<lambda>s. map data (events s)) (spans (Trace_close now span_now (build (new_trace id0 t0 nm md) ops)))
   | _ \<Rightarrow> False"
  by (simp add: load_save)

lemma load_loop_append:
  "load_loop fresh_ids (pre @ rest) n header acc =
     (case load_loop fresh_ids pre n header acc of
        Inl err \<Rightarrow> Inl err
      | Inr (h', acc') \<Rightarrow> load_loop fresh_ids rest (n + length pre) h' acc')"
proof (induction pre arbitrary: n header acc)
  case Nil
  then show ?case by simp
next
  case (Cons l pre)
  have e: "n + length (l # pre) = Suc n + length pre" by simp
  show ?case unfolding e
    by (cases l) (auto simp: Cons.IH split: json.splits outcome.splits)
qed

lemma map_of_dict_pop: "k' \<noteq> k \<Longrightarrow> map_of (dict_pop d k) k' = map_of d k'"
  by (induction d) (auto simp: dict_pop_def)

lemma span_without_name:
  "map_of kvs ''name'' = None \<Longrightarrow>
   Span_from_dict fresh_ids (JObj (dict_pop kvs ''type'')) = Raises (KeyError ''name'')"
  by (simp add: Span_from_dict_def map_of_dict_pop)

text \<open>
  C7, amended. When the lines before it are read without an exception, a span record without
  the key \<open>name\<close> makes \<open>load\<close> raise \<open>KeyError\<close> for that key, whatever follows: no trace is
  returned.
\<close>

theorem load_span_without_name:
  "(\<forall>err. load fresh_trace_id fresh_ids pre \<noteq> Raises err)
   \<and> map_of kvs ''type'' = Some (JStr ''span'') \<and> map_of kvs ''name'' = None
   \<longrightarrow> load fresh_trace_id fresh_ids (pre @ Json (JObj kvs) # post) = Raises (KeyError ''name'')"
proof
  assume a: "(\<forall>err. load fresh_trace_id fresh_ids pre \<noteq> Raises err)
   \<and> map_of kvs ''type'' = Some (JStr ''span'') \<and> map_of kvs ''name'' = None"
  then obtain h acc where p: "load_loop fresh_ids pre 0 [] [] = Inr (h, acc)"
    by (cases "load_loop fresh_ids pre 0 [] []") (auto simp: load_def)
  have "load_loop fresh_ids (pre @ Json (JObj kvs) # post) 0 [] [] = Inl (KeyError ''name'')"
    using a by (simp add: load_loop_append p span_without_name)
  then show "load fresh_trace_id fresh_ids (pre @ Json (JObj kvs) # post) = Raises (KeyError ''name'')"
    by (simp add: load_def)
qed

text \<open>
  C7, as stated, fails. A header record without \<open>trace_id\<close> and \<open>name\<close> loads, the
  defaults taking their place; a span record without \<open>name\<close> makes \<open>load\<close> fail, and the
  exception that reaches the caller is Python's \<open>KeyError\<close> for the key \<open>name\<close>. The source
  defines no error class of its own.
\<close>

theorem load_malformed_records:
  "load ''fresh'' (\<lambda>i j. ''e'') [Json (JObj [(''type'', JStr ''trace_header'')])]
     = Returns \<lparr>trace_id = ''fresh'', trace_name = ''unnamed'', trace_start_time = 0,
                trace_end_time = None, spans = [], trace_metadata = []\<rparr>
   \<and> load ''fresh'' (\<lambda>i j. ''e'')
        [Json (JObj [(''type'', JStr ''span''), (''span_id'', JStr ''s1''),
                     (''start_time'', JNum 0)])]
     = Raises (KeyError ''name'')"
  by (simp add: load_def make_trace_def dict_get_def dict_get_default_def Span_from_dict_def
      dict_pop_def)

theorem load_span_without_name_witness:
  "(\<forall>err. load ''fresh'' (\<lambda>i j. ''e'') (save ex_trace) \<noteq> Raises err)
   \<and> load ''fresh'' (\<lambda>i j. ''e'')
        (save ex_trace
         @ Json (JObj [(''type'', JStr ''span''), (''span_id'', JStr ''s9''),
                       (''start_time'', JNum 7)])
         # save ex_log_trace)
     = Raises (KeyError ''name'')"
  using load_span_without_name [of "''fresh''" "\<lambda>i j. ''e''" "save ex_trace"
      "[(''type'', JStr ''span''), (''span_id'', JStr ''s9''), (''start_time'', JNum 7)]"
      "save ex_log_trace"]
  by (simp add: load_save)

end
